theory Spec2Isabelle
  imports Complex_Main "HOL-Library.Sublist"
begin

section \<open>Text\<close>

text \<open>
  A Python \<open>str\<close> is modelled as a HOL \<open>string\<close>. The model covers ASCII text: case
  mapping acts on the letters A-Z and a-z, the digits are 0-9, and every other character
  is carried unchanged. Logging is not modelled.
\<close>

definition ord :: "char \<Rightarrow> nat" where
  \<comment> \<open>\<open>ord(c)\<close>\<close>
  "ord c = of_char c"

definition is_digit :: "char \<Rightarrow> bool" where
  "is_digit c = (48 \<le> ord c \<and> ord c \<le> 57)"

definition is_upper :: "char \<Rightarrow> bool" where
  "is_upper c = (65 \<le> ord c \<and> ord c \<le> 90)"

definition is_lower :: "char \<Rightarrow> bool" where
  "is_lower c = (97 \<le> ord c \<and> ord c \<le> 122)"

definition is_space :: "char \<Rightarrow> bool" where
  \<comment> \<open>\<open>str.isspace\<close> on ASCII: tab, line feed, VT, FF, CR, the separators 28-31, space.\<close>
  "is_space c = ((9 \<le> ord c \<and> ord c \<le> 13) \<or> (28 \<le> ord c \<and> ord c \<le> 32))"

definition lower_char :: "char \<Rightarrow> char" where
  "lower_char c = (if is_upper c then char_of (ord c + 32) else c)"

definition upper_char :: "char \<Rightarrow> char" where
  "upper_char c = (if is_lower c then char_of (ord c - 32) else c)"

definition lower :: "string \<Rightarrow> string" where
  \<comment> \<open>\<open>s.lower()\<close>\<close>
  "lower s = map lower_char s"

definition upper :: "string \<Rightarrow> string" where
  \<comment> \<open>\<open>s.upper()\<close>\<close>
  "upper s = map upper_char s"

fun py_in :: "string \<Rightarrow> string \<Rightarrow> bool" where
  \<comment> \<open>\<open>needle in haystack\<close> on strings: the needle starts at some position of the haystack.\<close>
  "py_in needle [] = (needle = [])"
| "py_in needle (c # cs) = (prefix needle (c # cs) \<or> py_in needle cs)"

function replace :: "string \<Rightarrow> string \<Rightarrow> string \<Rightarrow> string" where
  \<comment> \<open>\<open>s.replace(old, new)\<close>: occurrences taken left to right, without overlap; an empty
      \<open>old\<close> matches before every character and at the end.\<close>
  "replace old new [] = (if old = [] then new else [])"
| "replace old new (c # cs) =
     (if old = [] then new @ c # replace old new cs
      else if prefix old (c # cs) then new @ replace old new (drop (length old) (c # cs))
      else c # replace old new cs)"
  by pat_completeness auto
termination
  by (relation "measure (\<lambda>(old, new, s). length s)") auto

definition strip :: "string \<Rightarrow> string" where
  \<comment> \<open>\<open>s.strip()\<close>\<close>
  "strip s = rev (dropWhile is_space (rev (dropWhile is_space s)))"

definition normalize :: "string \<Rightarrow> string" where
  \<comment> \<open>\<open>s.lower().replace(" ", "")\<close>, lines 83 and 85\<close>
  "normalize s = replace '' '' [] (lower s)"

section \<open>Values, errors\<close>

text \<open>
  A value decoded by \<open>json.loads\<close>, or \<open>None\<close>. A dict is an association list read
  through \<open>map_of\<close>. A float is kept by its value.
\<close>

datatype json =
    JNull
  | JBool bool
  | JInt int
  | JFloat real
  | JStr string
  | JArr "json list"
  | JObj "(string \<times> json) list"

datatype py_error =
    KeyError string
  | AttributeError
  | ValueError
  | OverflowError
  | ServiceError string

section \<open>Shared memory\<close>

record FlightRecord =
  flight_id :: string
  airline :: string
  price :: int
  raw_price :: string
  departure :: string
  origin :: json
  destination :: json

record AgentMemory =
  flight_cache :: "FlightRecord list"
  last_search_context :: "(string \<times> json) list"

definition init_memory :: AgentMemory where
  \<comment> \<open>\<open>AgentMemory.__init__\<close>\<close>
  "init_memory = \<lparr>flight_cache = [], last_search_context = []\<rparr>"

type_synonym raw_flight = "string \<rightharpoonup> string"

definition getitem :: "raw_flight \<Rightarrow> string \<Rightarrow> py_error + string" where
  \<comment> \<open>\<open>f[key]\<close>\<close>
  "getitem f k = (case f k of None \<Rightarrow> Inl (KeyError k) | Some v \<Rightarrow> Inr v)"

definition re_sub_non_digits :: "string \<Rightarrow> string" where
  \<comment> \<open>\<open>re.sub(r'[^\d]', '', s)\<close>\<close>
  "re_sub_non_digits s = filter is_digit s"

definition digit_val :: "char \<Rightarrow> int" where
  "digit_val c = int (ord c) - 48"

definition int_max_str_digits :: nat where
  \<comment> \<open>\<open>sys.get_int_max_str_digits()\<close>, the interpreter's default\<close>
  "int_max_str_digits = 4300"

definition py_int :: "string \<Rightarrow> py_error + int" where
  \<comment> \<open>\<open>int(s)\<close> on what line 64 passes, a string of decimal digits: \<open>ValueError\<close> on
      the empty string and on more digits than the conversion limit, leading zeros
      counted; else the numeral the digits write. Python integers are unbounded.\<close>
  "py_int s =
     (if s = [] \<or> \<not> list_all is_digit s then Inl ValueError
      else if int_max_str_digits < length s then Inl ValueError
      else Inr (foldl (\<lambda>acc c. 10 * acc + digit_val c) 0 s))"

definition parse_price :: "string \<Rightarrow> int" where
  \<comment> \<open>lines 63-66: \<open>try: int(re.sub(...)) except ValueError: 999999\<close>\<close>
  "parse_price p =
     (case py_int (re_sub_non_digits p) of
        Inl e \<Rightarrow> 999999
      | Inr n \<Rightarrow> n)"

definition build_record :: "raw_flight \<Rightarrow> json \<Rightarrow> json \<Rightarrow> py_error + FlightRecord" where
  \<comment> \<open>one pass of the loop body, lines 62-76; the keys are read in the source's order\<close>
  "build_record f orig dest =
     (case getitem f ''price'' of Inl e \<Rightarrow> Inl e | Inr p0 \<Rightarrow>
      let price_int = parse_price p0 in
      case getitem f ''flight_id'' of Inl e \<Rightarrow> Inl e | Inr fid \<Rightarrow>
      case getitem f ''airline'' of Inl e \<Rightarrow> Inl e | Inr al \<Rightarrow>
      case getitem f ''price'' of Inl e \<Rightarrow> Inl e | Inr p \<Rightarrow>
      case getitem f ''departure_time'' of Inl e \<Rightarrow> Inl e | Inr dep \<Rightarrow>
      Inr \<lparr>flight_id = fid, airline = al, price = price_int, raw_price = p,
           departure = dep, origin = orig, destination = dest\<rparr>)"

fun update_loop ::
  "raw_flight list \<Rightarrow> json \<Rightarrow> json \<Rightarrow> AgentMemory \<Rightarrow> (py_error + unit) \<times> AgentMemory" where
  \<comment> \<open>the \<open>for\<close> loop of lines 61-77: a raise leaves what was appended so far\<close>
  "update_loop [] orig dest m = (Inr (), m)"
| "update_loop (f # fs) orig dest m =
     (case build_record f orig dest of
        Inl e \<Rightarrow> (Inl e, m)
      | Inr r \<Rightarrow> update_loop fs orig dest (m\<lparr>flight_cache := flight_cache m @ [r]\<rparr>))"

definition update_cache ::
  "raw_flight list \<Rightarrow> json \<Rightarrow> json \<Rightarrow> AgentMemory \<Rightarrow> (py_error + unit) \<times> AgentMemory" where
  "update_cache raw_flights orig dest m =
     update_loop raw_flights orig dest (m\<lparr>flight_cache := []\<rparr>)"

fun find_airline_loop :: "string \<Rightarrow> FlightRecord list \<Rightarrow> FlightRecord option" where
  "find_airline_loop normalized_query [] = None"
| "find_airline_loop normalized_query (flight # rest) =
     (if py_in normalized_query (normalize (airline flight)) then Some flight
      else find_airline_loop normalized_query rest)"

definition find_flight_by_airline :: "AgentMemory \<Rightarrow> string \<Rightarrow> FlightRecord option" where
  "find_flight_by_airline m airline_name =
     find_airline_loop (normalize airline_name) (flight_cache m)"

fun min_by_price :: "FlightRecord \<Rightarrow> FlightRecord list \<Rightarrow> FlightRecord" where
  \<comment> \<open>\<open>min(..., key=lambda x: x.price)\<close>: the running minimum is replaced only by a
      strictly smaller key\<close>
  "min_by_price best [] = best"
| "min_by_price best (x # xs) =
     (if price x < price best then min_by_price x xs else min_by_price best xs)"

definition find_cheapest_flight :: "AgentMemory \<Rightarrow> FlightRecord option" where
  "find_cheapest_flight m =
     (case flight_cache m of
        [] \<Rightarrow> None
      | x # xs \<Rightarrow> Some (min_by_price x xs))"

fun get_flight_by_id_loop :: "string \<Rightarrow> FlightRecord list \<Rightarrow> FlightRecord option" where
  "get_flight_by_id_loop fid [] = None"
| "get_flight_by_id_loop fid (flight # rest) =
     (if flight_id flight = fid then Some flight else get_flight_by_id_loop fid rest)"

definition get_flight_by_id :: "AgentMemory \<Rightarrow> string \<Rightarrow> FlightRecord option" where
  "get_flight_by_id m fid = get_flight_by_id_loop fid (flight_cache m)"

section \<open>Data layer\<close>

definition search_flight_inventory :: "json \<Rightarrow> json \<Rightarrow> string \<Rightarrow> raw_flight list" where
  \<comment> \<open>\<open>_search_flight_inventory(...)['flights']\<close>: the same three offers on every call\<close>
  "search_flight_inventory orig dest date_str =
     [ [''flight_id'' \<mapsto> ''BA-2847'', ''airline'' \<mapsto> ''British Airways'',
        ''departure_time'' \<mapsto> ''09:00 AM'', ''price'' \<mapsto> ''$420''],
       [''flight_id'' \<mapsto> ''AF-1923'', ''airline'' \<mapsto> ''Air France'',
        ''departure_time'' \<mapsto> ''02:00 PM'', ''price'' \<mapsto> ''$300''],
       [''flight_id'' \<mapsto> ''LH-5614'', ''airline'' \<mapsto> ''Lufthansa'',
        ''departure_time'' \<mapsto> ''08:00 PM'', ''price'' \<mapsto> ''$600''] ]"

record booking_result =
  br_status :: string
  br_pnr :: string
  br_flight_id :: string
  br_passenger :: json

definition commit_reservation :: "string \<Rightarrow> string \<Rightarrow> json \<Rightarrow> booking_result" where
  \<comment> \<open>\<open>_commit_reservation\<close>; the first argument is \<open>str(uuid.uuid4())\<close>\<close>
  "commit_reservation uuid fid passenger_name =
     \<lparr>br_status = ''CONFIRMED'', br_pnr = ''PNR'' @ upper (take 6 uuid),
      br_flight_id = fid, br_passenger = passenger_name\<rparr>"

section \<open>Dates\<close>

record date =
  year :: nat
  month :: nat
  day :: nat

definition is_leap :: "nat \<Rightarrow> bool" where
  "is_leap y = (y mod 4 = 0 \<and> (y mod 100 \<noteq> 0 \<or> y mod 400 = 0))"

definition days_in_month :: "nat \<Rightarrow> nat \<Rightarrow> nat" where
  "days_in_month y m =
     (if m = 2 then (if is_leap y then 29 else 28)
      else if m = 4 \<or> m = 6 \<or> m = 9 \<or> m = 11 then 30
      else 31)"

definition valid_date :: "date \<Rightarrow> bool" where
  \<comment> \<open>the values of \<open>datetime.date\<close>: years 1 to 9999\<close>
  "valid_date d =
     (1 \<le> year d \<and> year d \<le> 9999 \<and> 1 \<le> month d \<and> month d \<le> 12
      \<and> 1 \<le> day d \<and> day d \<le> days_in_month (year d) (month d))"

definition add_one_day :: "date \<Rightarrow> py_error + date" where
  \<comment> \<open>\<open>d + datetime.timedelta(days=1)\<close>: the next calendar day, \<open>OverflowError\<close> past
      \<open>date.max\<close>\<close>
  "add_one_day d =
     (if day d < days_in_month (year d) (month d) then Inr (d\<lparr>day := day d + 1\<rparr>)
      else if month d < 12 then Inr \<lparr>year = year d, month = month d + 1, day = 1\<rparr>
      else if year d < 9999 then Inr \<lparr>year = year d + 1, month = 1, day = 1\<rparr>
      else Inl OverflowError)"

definition digit_char :: "nat \<Rightarrow> char" where
  "digit_char n = char_of (48 + n mod 10)"

fun show_nat :: "nat \<Rightarrow> string" where
  \<comment> \<open>\<open>str(n)\<close> for a count\<close>
  "show_nat n = (if n < 10 then [digit_char n] else show_nat (n div 10) @ [digit_char n])"

declare show_nat.simps [simp del]

definition strftime_ymd :: "date \<Rightarrow> string" where
  \<comment> \<open>\<open>d.strftime("%Y-%m-%d")\<close> as the C library of Linux writes it: the year without
      padding, the month and the day on two digits\<close>
  "strftime_ymd d =
     show_nat (year d) @ ''-'' @
     [digit_char (month d div 10), digit_char (month d)] @ ''-'' @
     [digit_char (day d div 10), digit_char (day d)]"

section \<open>Orchestrator\<close>

text \<open>
  What lies outside the repository is a parameter of the turn: the text the model answers
  to the interpretation prompt and to the generation prompt (or the exception of the
  call), the JSON decoder, the clock, the UUID source and \<open>str()\<close> of a decoded value
  that is not text.
\<close>

record env =
  nlu_text :: "string \<Rightarrow> py_error + string"
  json_loads :: "string \<Rightarrow> py_error + json"
  nlg_text :: "string \<Rightarrow> py_error + string"
  today :: date
  uuid4 :: string
  repr :: "json \<Rightarrow> string"

datatype event =
    SearchInventory json json string
  | CommitReservation string json
  | GenerateResponse string

definition truthy :: "json \<Rightarrow> bool" where
  \<comment> \<open>Python's truth value of a decoded value\<close>
  "truthy v =
     (case v of
        JNull \<Rightarrow> False
      | JBool b \<Rightarrow> b
      | JInt n \<Rightarrow> n \<noteq> 0
      | JFloat x \<Rightarrow> x \<noteq> 0
      | JStr s \<Rightarrow> s \<noteq> []
      | JArr xs \<Rightarrow> xs \<noteq> []
      | JObj kvs \<Rightarrow> kvs \<noteq> [])"

definition py_str :: "env \<Rightarrow> json \<Rightarrow> string" where
  \<comment> \<open>a value interpolated in an f-string\<close>
  "py_str e v =
     (case v of
        JStr s \<Rightarrow> s
      | JNull \<Rightarrow> ''None''
      | JBool b \<Rightarrow> (if b then ''True'' else ''False'')
      | _ \<Rightarrow> repr e v)"

definition dict_get :: "(string \<times> json) list \<Rightarrow> string \<Rightarrow> json \<Rightarrow> json" where
  \<comment> \<open>\<open>data.get(key, default)\<close>\<close>
  "dict_get data k dflt = (case map_of data k of None \<Rightarrow> dflt | Some v \<Rightarrow> v)"

definition general_payload :: json where
  "general_payload = JObj [(''intent'', JStr ''GENERAL'')]"

definition extract_parameters :: "env \<Rightarrow> string \<Rightarrow> json" where
  \<comment> \<open>\<open>_extract_parameters\<close>: every exception of the \<open>try\<close> block is caught\<close>
  "extract_parameters e user_input =
     (case nlu_text e user_input of
        Inl err \<Rightarrow> general_payload
      | Inr text \<Rightarrow>
          let cleaned_text = strip (replace ''```'' [] (replace ''```json'' [] text)) in
          (case json_loads e cleaned_text of
             Inl err \<Rightarrow> general_payload
           | Inr v \<Rightarrow> v))"

definition resolve_date :: "env \<Rightarrow> json \<Rightarrow> py_error + string" where
  \<comment> \<open>\<open>_resolve_date\<close>; \<open>.lower()\<close> exists on \<open>str\<close> only\<close>
  "resolve_date e date_ref =
     (if \<not> truthy date_ref then Inr (strftime_ymd (today e))
      else case date_ref of
        JStr s \<Rightarrow>
          let r = lower s in
          if py_in ''tomorrow'' r then
            (case add_one_day (today e) of
               Inl err \<Rightarrow> Inl err
             | Inr target_date \<Rightarrow> Inr (strftime_ymd target_date))
          else if py_in ''today'' r then Inr (strftime_ymd (today e))
          else Inr (strftime_ymd (today e))
      | _ \<Rightarrow> Inl AttributeError)"

definition generate_response :: "env \<Rightarrow> string \<Rightarrow> py_error + string" where
  \<comment> \<open>\<open>_generate_response\<close>\<close>
  "generate_response e context_str =
     (case nlg_text e context_str of
        Inl err \<Rightarrow> Inl err
      | Inr text \<Rightarrow> Inr (strip text))"

definition capability_reply :: string where
  "capability_reply =
     ''I am a Travel Agent system. I can help you search for and book flights. How may I assist?''"

definition clarification_reply :: string where
  "clarification_reply =
     ''I could not identify the flight you wish to book. Please specify the airline name or flight ID from the search results.''"

definition newline :: string where
  "newline = [CHR 0x0A]"

fun join :: "string \<Rightarrow> string list \<Rightarrow> string" where
  \<comment> \<open>\<open>sep.join(xs)\<close>\<close>
  "join sep [] = []"
| "join sep [x] = x"
| "join sep (x # y # ys) = x @ sep @ join sep (y # ys)"

definition flight_string :: "FlightRecord \<Rightarrow> string" where
  "flight_string f =
     ''- '' @ airline f @ '' ('' @ flight_id f @ ''): '' @ raw_price f @ '' at '' @ departure f"

definition handle_search ::
  "env \<Rightarrow> (string \<times> json) list \<Rightarrow> AgentMemory
     \<Rightarrow> (py_error + string) \<times> AgentMemory \<times> event list" where
  \<comment> \<open>\<open>_handle_search\<close>\<close>
  "handle_search e data m =
     (let orig = dict_get data ''origin'' (JStr ''Unknown'');
          dest = dict_get data ''destination'' (JStr ''Unknown'');
          date_ref = dict_get data ''date_reference'' JNull in
      case resolve_date e date_ref of
        Inl err \<Rightarrow> (Inl err, m, [])
      | Inr travel_date \<Rightarrow>
          let flights = search_flight_inventory orig dest travel_date;
              searched = SearchInventory orig dest travel_date in
          (case update_cache flights orig dest m of
             (Inl err, m') \<Rightarrow> (Inl err, m', [searched])
           | (Inr u, m') \<Rightarrow>
               let flight_strings = map flight_string (flight_cache m');
                   context_str =
                     ''Search completed for '' @ py_str e orig @ '' to '' @ py_str e dest
                     @ '' on '' @ travel_date @ ''. Found ''
                     @ show_nat (length flight_strings) @ '' options:'' @ newline
                     @ join newline flight_strings in
               (generate_response e context_str, m',
                [searched, GenerateResponse context_str])))"

definition confirm_booking ::
  "env \<Rightarrow> FlightRecord \<Rightarrow> json \<Rightarrow> (py_error + string) \<times> event list" where
  \<comment> \<open>lines 256-268 of \<open>_handle_booking\<close>, run on the resolved record\<close>
  "confirm_booking e flight_record passenger =
     (let booking = commit_reservation (uuid4 e) (flight_id flight_record) passenger;
          context_str =
            ''Booking successful.'' @ newline
            @ ''Airline: '' @ airline flight_record @ newline
            @ ''Flight ID: '' @ br_flight_id booking @ newline
            @ ''Passenger: '' @ py_str e (br_passenger booking) @ newline
            @ ''PNR: '' @ br_pnr booking @ newline
            @ ''Status: '' @ br_status booking in
      (generate_response e context_str,
       [CommitReservation (flight_id flight_record) passenger, GenerateResponse context_str]))"

definition handle_booking ::
  "env \<Rightarrow> (string \<times> json) list \<Rightarrow> AgentMemory \<Rightarrow> (py_error + string) \<times> event list" where
  \<comment> \<open>\<open>_handle_booking\<close>; \<open>.lower()\<close> exists on \<open>str\<close> only\<close>
  "handle_booking e data m =
     (case dict_get data ''booking_target'' (JStr []) of
        JStr s \<Rightarrow>
          let target = lower s;
              passenger = dict_get data ''passenger'' (JStr ''Guest'');
              flight_record =
                (if py_in ''cheapest'' target then find_cheapest_flight m
                 else (case find_flight_by_airline m target of
                         Some r \<Rightarrow> Some r
                       | None \<Rightarrow> get_flight_by_id m (upper target))) in
          (case flight_record of
             None \<Rightarrow> (Inr clarification_reply, [])
           | Some r \<Rightarrow> confirm_booking e r passenger)
      | _ \<Rightarrow> (Inl AttributeError, []))"

definition handle_request ::
  "env \<Rightarrow> string \<Rightarrow> AgentMemory \<Rightarrow> (py_error + string) \<times> AgentMemory \<times> event list" where
  \<comment> \<open>\<open>.get\<close> exists on a dict only\<close>
  "handle_request e user_input m =
     (case extract_parameters e user_input of
        JObj nlu_data \<Rightarrow>
          let intent = dict_get nlu_data ''intent'' (JStr ''GENERAL'') in
          if intent = JStr ''SEARCH'' then handle_search e nlu_data m
          else if intent = JStr ''BOOK'' then
            (case handle_booking e nlu_data m of (res, evs) \<Rightarrow> (res, m, evs))
          else (Inr capability_reply, m, [])
      | _ \<Rightarrow> (Inl AttributeError, m, []))"

section \<open>Notions of the specification\<close>

definition spec_normalized :: "string \<Rightarrow> string" where
  \<comment> \<open>lower-cased, all space characters removed\<close>
  "spec_normalized s = filter (\<lambda>c. c \<noteq> CHR '' '') (lower s)"

definition carrier_matches :: "string \<Rightarrow> FlightRecord \<Rightarrow> bool" where
  \<comment> \<open>the normalized carrier name contains the normalized query as a substring\<close>
  "carrier_matches query r = sublist (spec_normalized query) (spec_normalized (airline r))"

definition spec_numeral :: "string \<Rightarrow> int" where
  \<comment> \<open>the integer a string of decimal digits denotes, by place value\<close>
  "spec_numeral ds = (\<Sum>i<length ds. digit_val (ds ! i) * 10 ^ (length ds - 1 - i))"

definition has_keys :: "raw_flight \<Rightarrow> bool" where
  \<comment> \<open>an offer with identifier, carrier, departure display and price display\<close>
  "has_keys f = (f ''price'' \<noteq> None \<and> f ''flight_id'' \<noteq> None \<and> f ''airline'' \<noteq> None
                 \<and> f ''departure_time'' \<noteq> None)"

fun built_records :: "raw_flight list \<Rightarrow> json \<Rightarrow> json \<Rightarrow> FlightRecord list" where
  \<comment> \<open>the records one call builds from its offers, up to the first offer that raises\<close>
  "built_records [] orig dest = []"
| "built_records (f # fs) orig dest =
     (case build_record f orig dest of
        Inl e \<Rightarrow> []
      | Inr r \<Rightarrow> r # built_records fs orig dest)"

definition built_from :: "raw_flight \<Rightarrow> json \<Rightarrow> json \<Rightarrow> FlightRecord \<Rightarrow> bool" where
  \<comment> \<open>\<open>r\<close> is the record of offer \<open>f\<close> in a search from \<open>orig\<close> to \<open>dest\<close>\<close>
  "built_from f orig dest r =
     (f ''flight_id'' = Some (flight_id r) \<and> f ''airline'' = Some (airline r)
      \<and> f ''price'' = Some (raw_price r) \<and> f ''departure_time'' = Some (departure r)
      \<and> price r = parse_price (raw_price r) \<and> origin r = orig \<and> destination r = dest)"

type_synonym cache_call = "raw_flight list \<times> json \<times> json"

fun run_calls :: "cache_call list \<Rightarrow> AgentMemory \<Rightarrow> AgentMemory" where
  \<comment> \<open>a sequence of \<open>update_cache\<close> calls on one memory; a call that raised leaves the
      memory as it was at the raise, and the next call runs on it\<close>
  "run_calls [] m = m"
| "run_calls ((raw, orig, dest) # calls) m = run_calls calls (snd (update_cache raw orig dest m))"

definition spec_resolution :: "AgentMemory \<Rightarrow> string \<Rightarrow> FlightRecord option" where
  \<comment> \<open>entity resolution of a lower-cased target: cheapest, else fuzzy carrier, else
      identifier\<close>
  "spec_resolution m target =
     (if sublist ''cheapest'' target then find_cheapest_flight m
      else if find_flight_by_airline m target \<noteq> None then find_flight_by_airline m target
      else get_flight_by_id m (upper target))"

definition booking_outcome ::
  "env \<Rightarrow> json \<Rightarrow> FlightRecord option \<Rightarrow> (py_error + string) \<times> event list" where
  \<comment> \<open>what a booking turn does once resolution has given a record or nothing\<close>
  "booking_outcome e passenger resolved =
     (case resolved of
        None \<Rightarrow> (Inr clarification_reply, [])
      | Some r \<Rightarrow> confirm_booking e r passenger)"

fun committed :: "event list \<Rightarrow> (string \<times> json) list" where
  \<comment> \<open>the calls of the reservation-commit collaborator in a trace\<close>
  "committed [] = []"
| "committed (CommitReservation fid p # evs) = (fid, p) # committed evs"
| "committed (ev # evs) = committed evs"

fun generated :: "event list \<Rightarrow> string list" where
  \<comment> \<open>the calls of the generation service in a trace\<close>
  "generated [] = []"
| "generated (GenerateResponse c # evs) = c # generated evs"
| "generated (ev # evs) = generated evs"

definition date_max :: date where
  \<comment> \<open>\<open>datetime.date.max\<close>\<close>
  "date_max = \<lparr>year = 9999, month = 12, day = 31\<rparr>"

definition days_before_year :: "nat \<Rightarrow> nat" where
  \<comment> \<open>days in the years before year \<open>y\<close> of the proleptic Gregorian calendar\<close>
  "days_before_year y = (y - 1) * 365 + (y - 1) div 4 - (y - 1) div 100 + (y - 1) div 400"

definition days_before_month :: "nat \<Rightarrow> nat \<Rightarrow> nat" where
  \<comment> \<open>days of year \<open>y\<close> in the months before month \<open>m\<close>\<close>
  "days_before_month y m = sum_list (map (days_in_month y) [1..<m])"

definition toordinal :: "date \<Rightarrow> nat" where
  \<comment> \<open>the day number of a date, 0001-01-01 being day 1\<close>
  "toordinal d = days_before_year (year d) + days_before_month (year d) (month d) + day d"

definition is_ymd :: "date \<Rightarrow> string \<Rightarrow> bool" where
  \<comment> \<open>\<open>s\<close> writes \<open>d\<close> as year-month-day: digits denoting the year, a hyphen, two
      digits denoting the month, a hyphen, two digits denoting the day\<close>
  "is_ymd d s =
     (7 \<le> length s
      \<and> s ! (length s - 6) = CHR ''-'' \<and> s ! (length s - 3) = CHR ''-''
      \<and> list_all is_digit (take (length s - 6) s)
      \<and> spec_numeral (take (length s - 6) s) = int (year d)
      \<and> list_all is_digit (take 2 (drop (length s - 5) s))
      \<and> spec_numeral (take 2 (drop (length s - 5) s)) = int (month d)
      \<and> list_all is_digit (drop (length s - 2) s)
      \<and> spec_numeral (drop (length s - 2) s) = int (day d))"

section \<open>Sample data\<close>

text \<open>
  A cache with two records of the lowest price, two offers whose prices need parsing, and
  a turn environment: some user inputs with the text the interpretation service answers,
  and what the decoder gives on those texts.
\<close>

definition sample_record :: "string \<Rightarrow> string \<Rightarrow> int \<Rightarrow> FlightRecord" where
  "sample_record fid al p =
     \<lparr>flight_id = fid, airline = al, price = p, raw_price = ''$'' @ show_nat (nat p),
      departure = ''09:00 AM'', origin = JStr ''London'', destination = JStr ''Paris''\<rparr>"

definition tie_memory :: AgentMemory where
  "tie_memory =
     \<lparr>flight_cache =
        [sample_record ''BA-2847'' ''British Airways'' 420,
         sample_record ''AF-1923'' ''Air France'' 300,
         sample_record ''LH-5614'' ''Lufthansa'' 600,
         sample_record ''KL-1001'' ''KLM'' 300],
      last_search_context = []\<rparr>"

definition sample_offers :: "raw_flight list" where
  "sample_offers =
     [ [''flight_id'' \<mapsto> ''ZZ-1'', ''airline'' \<mapsto> ''Zed Air'',
        ''departure_time'' \<mapsto> ''07:15 AM'', ''price'' \<mapsto> ''$1,2 34''],
       [''flight_id'' \<mapsto> ''QQ-2'', ''airline'' \<mapsto> ''Quick Jet'',
        ''departure_time'' \<mapsto> ''11:40 PM'', ''price'' \<mapsto> ''call us''] ]"

definition long_count :: nat where
  "long_count = 4301"

definition long_price :: string where
  \<comment> \<open>a dollar sign and 4301 nines\<close>
  "long_price = CHR ''$'' # replicate long_count (CHR ''9'')"

definition long_offer :: raw_flight where
  "long_offer =
     [''flight_id'' \<mapsto> ''XL-9'', ''airline'' \<mapsto> ''Long Air'',
      ''departure_time'' \<mapsto> ''06:00 AM'', ''price'' \<mapsto> long_price]"

definition earlier_calls :: "cache_call list" where
  "earlier_calls =
     [(search_flight_inventory (JStr ''London'') (JStr ''Paris'') ''2024-01-11'',
       JStr ''London'', JStr ''Paris'')]"

definition fence :: string where
  "fence = ''```''"

definition sample_answers :: "(string \<times> string) list" where
  \<open>sample_answers =
     [(''Book it.'', fence @ ''json'' @ newline @ ''{"intent": "BOOK"}'' @ newline @ fence),
      (''Book Delta.'', ''{"intent": "BOOK", "booking_target": "Delta"}''),
      (''Book a flight.'', ''{"intent": "BOOK", "booking_target": null}''),
      (''Book the cheapest for Robin.'',
       ''{"intent": "BOOK", "booking_target": "the CHEAPEST one", "passenger": "Robin"}''),
      (''Book lh-5614.'', ''{"intent": "BOOK", "booking_target": "LH-5614"}''),
      (''List.'', ''[]''),
      (''Hello'', ''Hello! How can I help?'')]\<close>

definition sample_decodings :: "(string \<times> json) list" where
  \<open>sample_decodings =
     [(''{"intent": "BOOK"}'', JObj [(''intent'', JStr ''BOOK'')]),
      (''{"intent": "BOOK", "booking_target": "Delta"}'',
       JObj [(''intent'', JStr ''BOOK''), (''booking_target'', JStr ''Delta'')]),
      (''{"intent": "BOOK", "booking_target": null}'',
       JObj [(''intent'', JStr ''BOOK''), (''booking_target'', JNull)]),
      (''{"intent": "BOOK", "booking_target": "the CHEAPEST one", "passenger": "Robin"}'',
       JObj [(''intent'', JStr ''BOOK''), (''booking_target'', JStr ''the CHEAPEST one''),
             (''passenger'', JStr ''Robin'')]),
      (''{"intent": "BOOK", "booking_target": "LH-5614"}'',
       JObj [(''intent'', JStr ''BOOK''), (''booking_target'', JStr ''LH-5614'')]),
      (''[]'', JArr [])]\<close>

definition early_date :: date where
  "early_date = \<lparr>year = 5, month = 3, day = 7\<rparr>"

definition sample_env :: env where
  "sample_env =
     \<lparr>nlu_text = (\<lambda>u. case map_of sample_answers u of
                         None \<Rightarrow> Inl (ServiceError ''unavailable'')
                       | Some t \<Rightarrow> Inr t),
      json_loads = (\<lambda>t. case map_of sample_decodings t of
                           None \<Rightarrow> Inl ValueError
                         | Some v \<Rightarrow> Inr v),
      nlg_text = (\<lambda>c. Inr ('' '' @ c @ newline)),
      today = \<lparr>year = 2024, month = 1, day = 10\<rparr>,
      uuid4 = ''1b4e28ba-2fa1-11d2-883f-0016d3cca427'',
      repr = (\<lambda>v. ''?'')\<rparr>"

definition last_day_env :: env where
  \<comment> \<open>the same turn on the last day of \<open>datetime.date\<close>\<close>
  "last_day_env = sample_env\<lparr>today := date_max\<rparr>"

section \<open>Cheapest selection\<close>

lemma min_by_price_split:
  "\<exists>pre post. b # xs = pre @ min_by_price b xs # post
      \<and> (\<forall>x\<in>set pre. price (min_by_price b xs) < price x)
      \<and> (\<forall>x\<in>set post. price (min_by_price b xs) \<le> price x)"
proof (induction xs arbitrary: b)
  case Nil
  show ?case by (intro exI[of _ "[]"]) simp
next
  case (Cons x xs)
  show ?case
  proof (cases "price x < price b")
    case True
    from Cons.IH[of x] obtain pre post where
      eq: "x # xs = pre @ min_by_price x xs # post"
      and lt: "\<forall>y\<in>set pre. price (min_by_price x xs) < price y"
      and le: "\<forall>y\<in>set post. price (min_by_price x xs) \<le> price y" by blast
    have "x \<in> set (pre @ min_by_price x xs # post)" using eq by (metis list.set_intros(1))
    then have "price (min_by_price x xs) \<le> price x" using lt le by auto
    then have "price (min_by_price x xs) < price b" using True by simp
    moreover have "b # x # xs = (b # pre) @ min_by_price x xs # post" using eq by simp
    ultimately show ?thesis using True lt le
      by (metis min_by_price.simps(2) set_ConsD)
  next
    case False
    define r where "r = min_by_price b xs"
    from Cons.IH[of b] obtain pre post where
      eq: "b # xs = pre @ r # post"
      and lt: "\<forall>y\<in>set pre. price r < price y"
      and le: "\<forall>y\<in>set post. price r \<le> price y" unfolding r_def by blast
    have res: "min_by_price b (x # xs) = r" using False by (simp add: r_def)
    show ?thesis
    proof (cases pre)
      case Nil
      then have "r = b" and "post = xs" using eq by auto
      then have "b # x # xs = [] @ r # (x # xs)"
        "\<forall>y\<in>set (x # xs). price r \<le> price y"
        using False le by auto
      then show ?thesis unfolding res by (metis empty_iff list.set(1))
    next
      case (Cons p pre')
      then have p: "p = b" and xs: "xs = pre' @ r # post" using eq by auto
      have "price r < price b" using lt Cons p by simp
      then have "price r < price x" using False by simp
      moreover have "b # x # xs = (b # x # pre') @ r # post" using xs by simp
      ultimately have "b # x # xs = (b # x # pre') @ r # post"
        "\<forall>y\<in>set (b # x # pre'). price r < price y"
        using lt Cons p by auto
      then show ?thesis unfolding res using le by blast
    qed
  qed
qed

text \<open>
  C4. On an empty cache \<open>find_cheapest_flight\<close> returns nothing. On a non-empty cache it
  returns the record at some position \<open>i\<close> whose price is at most every price of the
  cache and strictly below every price at an earlier position: the earliest record of
  minimal price.
\<close>

theorem find_cheapest_flight_stable_min:
  "(flight_cache m = [] \<longrightarrow> find_cheapest_flight m = None) \<and>
   (flight_cache m \<noteq> [] \<longrightarrow>
      (\<exists>i < length (flight_cache m).
          find_cheapest_flight m = Some (flight_cache m ! i)
        \<and> (\<forall>j < length (flight_cache m). price (flight_cache m ! i) \<le> price (flight_cache m ! j))
        \<and> (\<forall>j < i. price (flight_cache m ! i) < price (flight_cache m ! j))))"
proof (cases "flight_cache m")
  case Nil
  then show ?thesis by (simp add: find_cheapest_flight_def)
next
  case (Cons b xs)
  define r where "r = min_by_price b xs"
  from min_by_price_split[of b xs] obtain pre post where
    eq: "b # xs = pre @ r # post"
    and lt: "\<forall>y\<in>set pre. price r < price y"
    and le: "\<forall>y\<in>set post. price r \<le> price y" unfolding r_def by blast
  have c: "flight_cache m = pre @ r # post" using Cons eq by simp
  have f: "find_cheapest_flight m = Some r" using Cons by (simp add: find_cheapest_flight_def r_def)
  have i: "length pre < length (flight_cache m)" "flight_cache m ! length pre = r" using c by simp_all
  have early: "\<forall>j < length pre. price r < price (flight_cache m ! j)"
    using lt c by (simp add: nth_append)
  have all: "\<forall>j < length (flight_cache m). price r \<le> price (flight_cache m ! j)"
  proof (intro allI impI)
    fix j assume "j < length (flight_cache m)"
    then have "flight_cache m ! j \<in> set (pre @ r # post)" using c by (metis nth_mem)
    then show "price r \<le> price (flight_cache m ! j)" using lt le by auto
  qed
  have "\<exists>i < length (flight_cache m).
          find_cheapest_flight m = Some (flight_cache m ! i)
        \<and> (\<forall>j < length (flight_cache m). price (flight_cache m ! i) \<le> price (flight_cache m ! j))
        \<and> (\<forall>j < i. price (flight_cache m ! i) < price (flight_cache m ! j))"
    using f i early all by (intro exI[of _ "length pre"]) simp
  then show ?thesis using Cons by simp
qed

theorem find_cheapest_flight_stable_min_witness:
  "flight_cache tie_memory \<noteq> [] \<and>
   (\<exists>i < length (flight_cache tie_memory).
       find_cheapest_flight tie_memory = Some (flight_cache tie_memory ! i)
     \<and> (\<forall>j < length (flight_cache tie_memory).
           price (flight_cache tie_memory ! i) \<le> price (flight_cache tie_memory ! j))
     \<and> (\<forall>j < i. price (flight_cache tie_memory ! i) < price (flight_cache tie_memory ! j)))
   \<and> find_cheapest_flight tie_memory = Some (sample_record ''AF-1923'' ''Air France'' 300)"
proof -
  have ne: "flight_cache tie_memory \<noteq> []" by (simp add: tie_memory_def)
  have "find_cheapest_flight tie_memory = Some (sample_record ''AF-1923'' ''Air France'' 300)"
    by (simp add: find_cheapest_flight_def tie_memory_def sample_record_def)
  then show ?thesis using ne find_cheapest_flight_stable_min [of tie_memory] by simp
qed

section \<open>Fuzzy carrier match\<close>

lemma py_in_sublist: "py_in xs ys = sublist xs ys"
  by (induction ys) (auto simp: sublist_Cons_right)

lemma replace_space: "replace '' '' [] s = filter (\<lambda>c. c \<noteq> CHR '' '') s"
  by (induction s) auto

lemma normalize_spec: "normalize s = spec_normalized s"
  by (simp add: normalize_def spec_normalized_def replace_space)

lemma find_airline_loop_find:
  "find_airline_loop nq cache = List.find (\<lambda>r. py_in nq (normalize (airline r))) cache"
  by (induction cache) auto

lemma find_flight_by_airline_find:
  "find_flight_by_airline m query = List.find (carrier_matches query) (flight_cache m)"
  unfolding find_flight_by_airline_def find_airline_loop_find carrier_matches_def
  by (simp add: py_in_sublist normalize_spec)

text \<open>
  C3. \<open>find_flight_by_airline\<close> returns nothing exactly when no cached record's carrier
  name, lower-cased and without spaces, contains the query, lower-cased and without
  spaces, as a substring (so also on an empty cache); it returns \<open>r\<close> exactly when
  \<open>r\<close> is the first record in cache order with such a carrier name.
\<close>

theorem find_flight_by_airline_first_match:
  "(flight_cache m = [] \<longrightarrow> find_flight_by_airline m query = None) \<and>
   (find_flight_by_airline m query = None
      \<longleftrightarrow> (\<forall>r \<in> set (flight_cache m). \<not> carrier_matches query r)) \<and>
   (\<forall>r. find_flight_by_airline m query = Some r
      \<longleftrightarrow> (\<exists>i < length (flight_cache m).
             flight_cache m ! i = r \<and> carrier_matches query r
           \<and> (\<forall>j < i. \<not> carrier_matches query (flight_cache m ! j))))"
proof -
  note eq = find_flight_by_airline_find [of m query]
  have none: "find_flight_by_airline m query = None
      \<longleftrightarrow> (\<forall>r \<in> set (flight_cache m). \<not> carrier_matches query r)"
    unfolding eq find_None_iff by blast
  have some: "find_flight_by_airline m query = Some r
      \<longleftrightarrow> (\<exists>i < length (flight_cache m).
             flight_cache m ! i = r \<and> carrier_matches query r
           \<and> (\<forall>j < i. \<not> carrier_matches query (flight_cache m ! j)))" for r
    unfolding eq find_Some_iff by auto
  have "flight_cache m = [] \<longrightarrow> find_flight_by_airline m query = None"
    unfolding eq by simp
  then show ?thesis using none some by blast
qed

theorem find_flight_by_airline_first_match_witness:
  "find_flight_by_airline tie_memory ''AIR f''
     = Some (sample_record ''AF-1923'' ''Air France'' 300) \<and>
   (\<exists>i < length (flight_cache tie_memory).
       flight_cache tie_memory ! i = sample_record ''AF-1923'' ''Air France'' 300
     \<and> carrier_matches ''AIR f'' (sample_record ''AF-1923'' ''Air France'' 300)
     \<and> (\<forall>j < i. \<not> carrier_matches ''AIR f'' (flight_cache tie_memory ! j))) \<and>
   \<not> (\<forall>r \<in> set (flight_cache tie_memory). \<not> carrier_matches ''AIR f'' r)"
proof -
  have f: "find_flight_by_airline tie_memory ''AIR f''
             = Some (sample_record ''AF-1923'' ''Air France'' 300)"
    by code_simp
  show ?thesis
    using f find_flight_by_airline_first_match [of tie_memory "''AIR f''"] by auto
qed

section \<open>Price parsing and cache replacement\<close>

lemma spec_numeral_Nil: "spec_numeral [] = 0"
  by (simp add: spec_numeral_def)

lemma spec_numeral_snoc: "spec_numeral (ds @ [c]) = 10 * spec_numeral ds + digit_val c"
proof -
  have "(\<Sum>i<length ds. digit_val ((ds @ [c]) ! i) * 10 ^ (length ds - i))
        = (\<Sum>i<length ds. 10 * (digit_val (ds ! i) * 10 ^ (length ds - 1 - i)))"
  proof (rule sum.cong)
    fix i assume "i \<in> {..<length ds}"
    then have i: "i < length ds" by simp
    then have "length ds - i = Suc (length ds - 1 - i)" by simp
    then show "digit_val ((ds @ [c]) ! i) * 10 ^ (length ds - i)
               = 10 * (digit_val (ds ! i) * 10 ^ (length ds - 1 - i))"
      using i by (simp add: nth_append)
  qed simp
  then show ?thesis
    by (simp add: spec_numeral_def sum_distrib_left)
qed

lemma foldl_horner:
  "foldl (\<lambda>acc c. 10 * acc + digit_val c) 0 ds = spec_numeral ds"
  by (induction ds rule: rev_induct) (simp_all add: spec_numeral_Nil spec_numeral_snoc)

lemma digit_val_nonneg: "is_digit c \<Longrightarrow> 0 \<le> digit_val c"
  by (simp add: is_digit_def digit_val_def)

lemma spec_numeral_nonneg: "list_all is_digit ds \<Longrightarrow> 0 \<le> spec_numeral ds"
  unfolding spec_numeral_def
  by (intro sum_nonneg mult_nonneg_nonneg) (auto simp: list_all_length digit_val_nonneg)

lemma parse_price_spec:
  "parse_price p =
     (if filter is_digit p = [] \<or> int_max_str_digits < length (filter is_digit p) then 999999
      else spec_numeral (filter is_digit p))"
proof -
  have "list_all is_digit (filter is_digit p)" by (simp add: list_all_iff)
  then show ?thesis
    by (simp add: parse_price_def py_int_def re_sub_non_digits_def foldl_horner)
qed

lemma parse_price_digits:
  assumes "length (filter is_digit p) \<le> int_max_str_digits"
  shows "parse_price p
           = (if \<exists>c \<in> set p. is_digit c then spec_numeral (filter is_digit p) else 999999)"
  using assms by (auto simp: parse_price_spec filter_empty_conv)

lemma spec_numeral_nines: "spec_numeral (replicate n (CHR ''9'')) = 10 ^ n - 1"
proof (induction n)
  case 0
  then show ?case by (simp add: spec_numeral_Nil)
next
  case (Suc n)
  have "spec_numeral (replicate (Suc n) (CHR ''9''))
          = spec_numeral (replicate n (CHR ''9'') @ [CHR ''9''])"
    by (simp add: replicate_append_same)
  also have "\<dots> = 10 * (10 ^ n - 1) + 9"
    by (simp only: spec_numeral_snoc Suc.IH) (simp add: digit_val_def ord_def)
  finally show ?case by simp
qed

lemma long_price_digits: "filter is_digit long_price = replicate long_count (CHR ''9'')"
  by (simp add: long_price_def filter_replicate is_digit_def ord_def)

lemma parse_price_long: "parse_price long_price = 999999"
  by (simp add: parse_price_spec long_price_digits int_max_str_digits_def long_count_def)

lemma parse_price_nonneg: "0 \<le> parse_price p"
proof -
  have "list_all is_digit (filter is_digit p)" by (simp add: list_all_iff)
  then show ?thesis using spec_numeral_nonneg[of "filter is_digit p"]
    by (simp add: parse_price_spec)
qed

lemma build_record_ok:
  assumes "f ''price'' = Some p" "f ''flight_id'' = Some fid" "f ''airline'' = Some al"
    "f ''departure_time'' = Some dep"
  shows "build_record f orig dest =
     Inr \<lparr>flight_id = fid, airline = al, price = parse_price p, raw_price = p,
          departure = dep, origin = orig, destination = dest\<rparr>"
  using assms by (simp add: build_record_def getitem_def)

lemma build_record_Inr:
  assumes "build_record f orig dest = Inr r"
  shows "f ''price'' = Some (raw_price r) \<and> f ''flight_id'' = Some (flight_id r)
       \<and> f ''airline'' = Some (airline r) \<and> f ''departure_time'' = Some (departure r)
       \<and> price r = parse_price (raw_price r) \<and> origin r = orig \<and> destination r = dest"
  using assms
  by (auto simp: build_record_def getitem_def Let_def split: option.splits)

lemma update_loop_cache:
  "snd (update_loop raw orig dest m)
     = m\<lparr>flight_cache := flight_cache m @ built_records raw orig dest\<rparr>"
  by (induction raw arbitrary: m) (auto split: sum.splits)

lemma update_cache_cache:
  "flight_cache (snd (update_cache raw orig dest m)) = built_records raw orig dest"
  by (simp add: update_cache_def update_loop_cache)

lemma update_loop_ok:
  "\<forall>f \<in> set raw. has_keys f \<Longrightarrow> fst (update_loop raw orig dest m) = Inr ()"
proof (induction raw arbitrary: m)
  case Nil
  then show ?case by simp
next
  case (Cons f fs)
  then have "has_keys f" by simp
  then obtain r where "build_record f orig dest = Inr r"
    using build_record_ok[of f] by (auto simp: has_keys_def)
  then show ?case using Cons by simp
qed

lemma built_records_ok:
  "\<forall>f \<in> set raw. has_keys f \<Longrightarrow>
     length (built_records raw orig dest) = length raw \<and>
     (\<forall>i < length raw. build_record (raw ! i) orig dest = Inr (built_records raw orig dest ! i))"
proof (induction raw)
  case Nil
  then show ?case by simp
next
  case (Cons f fs)
  then have "has_keys f" by simp
  then obtain r where r: "build_record f orig dest = Inr r"
    using build_record_ok[of f] by (auto simp: has_keys_def)
  have ih: "length (built_records fs orig dest) = length fs"
    "\<forall>i < length fs. build_record (fs ! i) orig dest = Inr (built_records fs orig dest ! i)"
    using Cons by simp_all
  show ?case using r ih by (auto simp: nth_Cons split: nat.splits)
qed

lemma built_records_set:
  "r \<in> set (built_records raw orig dest) \<Longrightarrow> \<exists>f \<in> set raw. build_record f orig dest = Inr r"
  by (induction raw) (auto split: sum.splits)

text \<open>
  C6 (as amended). When every offer carries its four keys, \<open>update_cache\<close> raises
  nothing and stores one record per offer, with a non-negative price; the record stored
  for an offer with price display string \<open>p\<close> keeps \<open>p\<close> and, when \<open>p\<close> has no more
  digit characters than the interpreter's conversion limit of 4300, has as price the
  integer that the digit characters of \<open>p\<close>, taken in order, denote by place value
  when \<open>p\<close> has a digit, and 999999 when it has none.
\<close>

theorem update_cache_price_parse:
  assumes "\<forall>f \<in> set raw. has_keys f"
  shows "fst (update_cache raw orig dest m) = Inr () \<and>
         length (flight_cache (snd (update_cache raw orig dest m))) = length raw \<and>
         (\<forall>i < length raw. \<forall>p. (raw ! i) ''price'' = Some p \<longrightarrow>
            raw_price (flight_cache (snd (update_cache raw orig dest m)) ! i) = p \<and>
            0 \<le> price (flight_cache (snd (update_cache raw orig dest m)) ! i) \<and>
            (length (filter is_digit p) \<le> int_max_str_digits \<longrightarrow>
               price (flight_cache (snd (update_cache raw orig dest m)) ! i)
                 = (if \<exists>c \<in> set p. is_digit c then spec_numeral (filter is_digit p)
                    else 999999)))"
proof -
  let ?c = "flight_cache (snd (update_cache raw orig dest m))"
  have c: "?c = built_records raw orig dest" by (rule update_cache_cache)
  have ok: "fst (update_cache raw orig dest m) = Inr ()"
    using assms by (simp add: update_cache_def update_loop_ok)
  have len: "length ?c = length raw" using assms built_records_ok c by simp
  have "raw_price (?c ! i) = p \<and> 0 \<le> price (?c ! i) \<and>
        (length (filter is_digit p) \<le> int_max_str_digits \<longrightarrow>
           price (?c ! i)
             = (if \<exists>c \<in> set p. is_digit c then spec_numeral (filter is_digit p) else 999999))"
    if "i < length raw" "(raw ! i) ''price'' = Some p" for i p
  proof -
    have "build_record (raw ! i) orig dest = Inr (?c ! i)"
      using assms built_records_ok[of raw orig dest] c that(1) by simp
    from build_record_Inr[OF this] that(2)
    have "raw_price (?c ! i) = p" "price (?c ! i) = parse_price p" by simp_all
    then show ?thesis using parse_price_nonneg[of p] parse_price_digits[of p] by simp
  qed
  then show ?thesis using ok len by blast
qed

theorem update_cache_price_parse_witness:
  "list_all has_keys sample_offers \<and>
   fst (update_cache sample_offers (JStr ''London'') JNull init_memory) = Inr () \<and>
   map price (flight_cache (snd (update_cache sample_offers (JStr ''London'') JNull init_memory)))
     = [1234, 999999] \<and>
   length (filter is_digit ''$1,2 34'') \<le> int_max_str_digits \<and>
   spec_numeral (filter is_digit ''$1,2 34'') = 1234 \<and>
   length (filter is_digit ''call us'') \<le> int_max_str_digits \<and>
   \<not> (\<exists>c \<in> set ''call us''. is_digit c)"
proof -
  have k: "\<forall>f \<in> set sample_offers. has_keys f"
    by (simp add: sample_offers_def has_keys_def)
  have p: "(sample_offers ! 0) ''price'' = Some ''$1,2 34''"
    "(sample_offers ! 1) ''price'' = Some ''call us''"
    by (simp_all add: sample_offers_def)
  have d: "(\<exists>c \<in> set ''$1,2 34''. is_digit c)" "\<not> (\<exists>c \<in> set ''call us''. is_digit c)"
    by (simp_all add: is_digit_def ord_def)
  have g: "length (filter is_digit ''$1,2 34'') \<le> int_max_str_digits"
    "length (filter is_digit ''call us'') \<le> int_max_str_digits"
    by (simp_all add: is_digit_def ord_def int_max_str_digits_def)
  have n: "spec_numeral (filter is_digit ''$1,2 34'') = 1234"
    by (simp add: spec_numeral_def is_digit_def ord_def digit_val_def lessThan_Suc)
  have l: "length sample_offers = 2" by (simp add: sample_offers_def)
  note t = update_cache_price_parse [OF k, of "JStr ''London''" JNull init_memory]
  let ?c = "flight_cache (snd (update_cache sample_offers (JStr ''London'') JNull init_memory))"
  have "length ?c = 2" using t l by simp
  moreover have "price (?c ! 0) = 1234" using t p(1) d(1) g(1) n l by simp
  moreover have "price (?c ! 1) = 999999" using t p(2) d(2) g(2) l by simp
  ultimately have "map price ?c = [1234, 999999]"
    by (cases ?c; cases "tl ?c"; cases "tl (tl ?c)") auto
  then show ?thesis using k t n d(2) g by (simp add: list_all_iff)
qed

text \<open>
  The claim as stated, for every price display string with a digit, fails on a string
  with 4301 digit characters: \<open>int\<close> raises \<open>ValueError\<close> above the conversion limit,
  line 65 catches it, and the stored price is 999999, not the integer the digits denote.
\<close>

theorem update_cache_long_price_counterexample:
  "has_keys long_offer \<and> long_offer ''price'' = Some long_price \<and>
   (\<exists>c \<in> set long_price. is_digit c) \<and>
   length (filter is_digit long_price) = 4301 \<and>
   fst (update_cache [long_offer] (JStr ''London'') JNull init_memory) = Inr () \<and>
   map price (flight_cache (snd (update_cache [long_offer] (JStr ''London'') JNull init_memory)))
     = [999999] \<and>
   spec_numeral (filter is_digit long_price) = 10 ^ long_count - 1 \<and>
   spec_numeral (filter is_digit long_price) \<noteq> 999999"
proof -
  have k: "has_keys long_offer" by (simp add: long_offer_def has_keys_def)
  have p: "long_offer ''price'' = Some long_price" by (simp add: long_offer_def)
  have "0 < long_count" by (simp add: long_count_def)
  then have d: "\<exists>c \<in> set long_price. is_digit c"
    by (simp add: long_price_def is_digit_def ord_def)
  have l: "length (filter is_digit long_price) = 4301"
    by (simp add: long_price_digits) (simp add: long_count_def)
  have b: "build_record long_offer (JStr ''London'') JNull
             = Inr \<lparr>flight_id = ''XL-9'', airline = ''Long Air'', price = 999999,
                    raw_price = long_price, departure = ''06:00 AM'',
                    origin = JStr ''London'', destination = JNull\<rparr>"
    by (simp add: build_record_def getitem_def long_offer_def parse_price_long)
  have u: "update_cache [long_offer] (JStr ''London'') JNull init_memory
             = (Inr (), \<lparr>flight_cache =
                  [\<lparr>flight_id = ''XL-9'', airline = ''Long Air'', price = 999999,
                    raw_price = long_price, departure = ''06:00 AM'',
                    origin = JStr ''London'', destination = JNull\<rparr>],
                  last_search_context = []\<rparr>)"
    by (simp add: update_cache_def b init_memory_def)
  have f: "fst (update_cache [long_offer] (JStr ''London'') JNull init_memory) = Inr ()"
    "map price (flight_cache (snd (update_cache [long_offer] (JStr ''London'') JNull init_memory)))
       = [999999]"
    by (simp_all add: u)
  have n: "spec_numeral (filter is_digit long_price) = 10 ^ long_count - 1"
    by (simp only: long_price_digits spec_numeral_nines)
  have "(10::int) ^ 6 < 10 ^ long_count"
    by (rule power_strict_increasing) (simp_all add: long_count_def)
  then have "(1000000::int) < 10 ^ long_count" by simp
  then have ne: "spec_numeral (filter is_digit long_price) \<noteq> 999999"
    unfolding n by linarith
  show ?thesis using k p d l f n ne by (intro conjI)
qed

section \<open>Cache replacement\<close>

lemma min_by_price_mem: "min_by_price b xs \<in> set (b # xs)"
  by (induction xs arbitrary: b) (auto simp del: set_ConsD)

lemma find_cheapest_flight_mem: "find_cheapest_flight m = Some r \<Longrightarrow> r \<in> set (flight_cache m)"
  using min_by_price_mem by (auto simp: find_cheapest_flight_def split: list.splits)

lemma find_flight_by_airline_mem:
  "find_flight_by_airline m query = Some r \<Longrightarrow> r \<in> set (flight_cache m)"
  unfolding find_flight_by_airline_find find_Some_iff by auto

lemma get_flight_by_id_loop_mem: "get_flight_by_id_loop fid cache = Some r \<Longrightarrow> r \<in> set cache"
  by (induction cache) (auto split: if_splits)

lemma get_flight_by_id_mem: "get_flight_by_id m fid = Some r \<Longrightarrow> r \<in> set (flight_cache m)"
  by (simp add: get_flight_by_id_def get_flight_by_id_loop_mem)

lemma built_records_from:
  "r \<in> set (built_records raw orig dest) \<Longrightarrow> \<exists>f \<in> set raw. built_from f orig dest r"
  using built_records_set build_record_Inr unfolding built_from_def by blast

lemma finders_cache_only:
  assumes "flight_cache m = flight_cache m'"
  shows "find_cheapest_flight m = find_cheapest_flight m'"
    and "find_flight_by_airline m query = find_flight_by_airline m' query"
    and "get_flight_by_id m fid = get_flight_by_id m' fid"
  using assms
  by (simp_all add: find_cheapest_flight_def find_flight_by_airline_def get_flight_by_id_def)

text \<open>
  C1. After any sequence of earlier \<open>update_cache\<close> calls on any memory, followed by the
  call \<open>update_cache raw orig dest\<close>, every record that \<open>find_cheapest_flight\<close>,
  \<open>find_flight_by_airline\<close> or \<open>get_flight_by_id\<close> returns is the record of one of
  the offers in \<open>raw\<close>; the cache and the three answers are those of the same call on a
  fresh memory, so nothing of an earlier call is left.
\<close>

theorem update_cache_replaces_all:
  "(\<forall>r. find_cheapest_flight (snd (update_cache raw orig dest (run_calls calls m0))) = Some r
        \<or> find_flight_by_airline (snd (update_cache raw orig dest (run_calls calls m0))) query = Some r
        \<or> get_flight_by_id (snd (update_cache raw orig dest (run_calls calls m0))) fid = Some r
      \<longrightarrow> (\<exists>f \<in> set raw. built_from f orig dest r)) \<and>
   flight_cache (snd (update_cache raw orig dest (run_calls calls m0)))
     = flight_cache (snd (update_cache raw orig dest init_memory)) \<and>
   find_cheapest_flight (snd (update_cache raw orig dest (run_calls calls m0)))
     = find_cheapest_flight (snd (update_cache raw orig dest init_memory)) \<and>
   find_flight_by_airline (snd (update_cache raw orig dest (run_calls calls m0))) query
     = find_flight_by_airline (snd (update_cache raw orig dest init_memory)) query \<and>
   get_flight_by_id (snd (update_cache raw orig dest (run_calls calls m0))) fid
     = get_flight_by_id (snd (update_cache raw orig dest init_memory)) fid"
proof -
  let ?m = "snd (update_cache raw orig dest (run_calls calls m0))"
  let ?i = "snd (update_cache raw orig dest init_memory)"
  have c: "flight_cache ?m = built_records raw orig dest" by (rule update_cache_cache)
  have ci: "flight_cache ?m = flight_cache ?i" by (simp add: update_cache_cache)
  have "\<exists>f \<in> set raw. built_from f orig dest r"
    if "find_cheapest_flight ?m = Some r \<or> find_flight_by_airline ?m query = Some r
        \<or> get_flight_by_id ?m fid = Some r" for r
  proof -
    have "r \<in> set (flight_cache ?m)"
      using that find_cheapest_flight_mem find_flight_by_airline_mem get_flight_by_id_mem
      by blast
    then show ?thesis using c built_records_from by simp
  qed
  then show ?thesis using ci finders_cache_only[OF ci] by blast
qed

theorem update_cache_replaces_all_witness:
  "find_cheapest_flight
      (snd (update_cache sample_offers (JStr ''Rome'') JNull (run_calls earlier_calls init_memory)))
     = Some \<lparr>flight_id = ''ZZ-1'', airline = ''Zed Air'', price = 1234,
             raw_price = ''$1,2 34'', departure = ''07:15 AM'',
             origin = JStr ''Rome'', destination = JNull\<rparr> \<and>
   (\<exists>f \<in> set sample_offers.
      built_from f (JStr ''Rome'') JNull
        \<lparr>flight_id = ''ZZ-1'', airline = ''Zed Air'', price = 1234,
         raw_price = ''$1,2 34'', departure = ''07:15 AM'',
         origin = JStr ''Rome'', destination = JNull\<rparr>) \<and>
   get_flight_by_id (run_calls earlier_calls init_memory) ''BA-2847'' \<noteq> None \<and>
   get_flight_by_id
      (snd (update_cache sample_offers (JStr ''Rome'') JNull (run_calls earlier_calls init_memory)))
      ''BA-2847'' = None"
proof -
  have f: "find_cheapest_flight
      (snd (update_cache sample_offers (JStr ''Rome'') JNull (run_calls earlier_calls init_memory)))
     = Some \<lparr>flight_id = ''ZZ-1'', airline = ''Zed Air'', price = 1234,
             raw_price = ''$1,2 34'', departure = ''07:15 AM'',
             origin = JStr ''Rome'', destination = JNull\<rparr>"
    by code_simp
  have g: "get_flight_by_id (run_calls earlier_calls init_memory) ''BA-2847'' \<noteq> None"
    by code_simp
  have h: "get_flight_by_id
      (snd (update_cache sample_offers (JStr ''Rome'') JNull (run_calls earlier_calls init_memory)))
      ''BA-2847'' = None"
    by code_simp
  show ?thesis
    using f g h
      update_cache_replaces_all [of sample_offers "JStr ''Rome''" JNull earlier_calls init_memory
        "''x''" "''BA-2847''"]
    by blast
qed

section \<open>Booking\<close>

lemma handle_booking_text:
  assumes "dict_get data ''booking_target'' (JStr []) = JStr s"
  shows "handle_booking e data m =
           booking_outcome e (dict_get data ''passenger'' (JStr ''Guest''))
             (spec_resolution m (lower s))"
  using assms
  by (simp add: handle_booking_def booking_outcome_def spec_resolution_def py_in_sublist
      split: option.splits)

lemma committed_booking_outcome:
  "committed (snd (booking_outcome e passenger resolved))
     = (case resolved of None \<Rightarrow> [] | Some r \<Rightarrow> [(flight_id r, passenger)])"
  by (simp add: booking_outcome_def confirm_booking_def Let_def split: option.splits)

lemma handle_request_book:
  assumes "extract_parameters e user_input = JObj data"
    and "dict_get data ''intent'' (JStr ''GENERAL'') = JStr ''BOOK''"
  shows "handle_request e user_input m =
           (fst (handle_booking e data m), m, snd (handle_booking e data m))"
  using assms by (simp add: handle_request_def split: prod.splits)

text \<open>
  C2. For a payload whose booking target is text (or absent, which reads as the empty
  text), with \<open>target\<close> that text lower-cased: if \<open>target\<close> contains "cheapest", the
  turn books what \<open>find_cheapest_flight\<close> returns; otherwise it books what
  \<open>find_flight_by_airline target\<close> returns, and only when that is nothing, what
  \<open>get_flight_by_id\<close> returns on \<open>target\<close> upper-cased. Booking a record calls the
  reservation collaborator once, with that record's identifier; booking nothing calls it
  not at all.
\<close>

theorem handle_booking_resolution:
  assumes "dict_get data ''booking_target'' (JStr []) = JStr s"
  shows "(sublist ''cheapest'' (lower s) \<longrightarrow>
            handle_booking e data m
              = booking_outcome e (dict_get data ''passenger'' (JStr ''Guest''))
                  (find_cheapest_flight m)) \<and>
         (\<not> sublist ''cheapest'' (lower s) \<longrightarrow>
            (\<forall>r. find_flight_by_airline m (lower s) = Some r \<longrightarrow>
               handle_booking e data m
                 = booking_outcome e (dict_get data ''passenger'' (JStr ''Guest'')) (Some r)) \<and>
            (find_flight_by_airline m (lower s) = None \<longrightarrow>
               handle_booking e data m
                 = booking_outcome e (dict_get data ''passenger'' (JStr ''Guest''))
                     (get_flight_by_id m (upper (lower s))))) \<and>
         (\<forall>resolved.
            handle_booking e data m
              = booking_outcome e (dict_get data ''passenger'' (JStr ''Guest'')) resolved \<longrightarrow>
            committed (snd (handle_booking e data m))
              = (case resolved of
                   None \<Rightarrow> []
                 | Some r \<Rightarrow> [(flight_id r, dict_get data ''passenger'' (JStr ''Guest''))]))"
proof -
  note hb = handle_booking_text [OF assms, of e m]
  have c: "sublist ''cheapest'' (lower s) \<longrightarrow>
        handle_booking e data m
          = booking_outcome e (dict_get data ''passenger'' (JStr ''Guest''))
              (find_cheapest_flight m)"
    unfolding hb by (simp add: spec_resolution_def)
  have a: "\<not> sublist ''cheapest'' (lower s) \<longrightarrow>
        (\<forall>r. find_flight_by_airline m (lower s) = Some r \<longrightarrow>
           handle_booking e data m
             = booking_outcome e (dict_get data ''passenger'' (JStr ''Guest'')) (Some r))"
    unfolding hb by (simp add: spec_resolution_def)
  have i: "\<not> sublist ''cheapest'' (lower s) \<longrightarrow>
        (find_flight_by_airline m (lower s) = None \<longrightarrow>
           handle_booking e data m
             = booking_outcome e (dict_get data ''passenger'' (JStr ''Guest''))
                 (get_flight_by_id m (upper (lower s))))"
    unfolding hb by (simp add: spec_resolution_def)
  have o: "\<forall>resolved.
        handle_booking e data m
          = booking_outcome e (dict_get data ''passenger'' (JStr ''Guest'')) resolved \<longrightarrow>
        committed (snd (handle_booking e data m))
          = (case resolved of
               None \<Rightarrow> []
             | Some r \<Rightarrow> [(flight_id r, dict_get data ''passenger'' (JStr ''Guest''))])"
    by (simp add: committed_booking_outcome)
  show ?thesis using c a i o by blast
qed

theorem handle_booking_resolution_witness:
  "dict_get [(''intent'', JStr ''BOOK''), (''booking_target'', JStr ''the CHEAPEST one''),
             (''passenger'', JStr ''Robin'')] ''booking_target'' (JStr [])
     = JStr ''the CHEAPEST one'' \<and>
   sublist ''cheapest'' (lower ''the CHEAPEST one'') \<and>
   committed (snd (handle_booking sample_env
       [(''intent'', JStr ''BOOK''), (''booking_target'', JStr ''the CHEAPEST one''),
        (''passenger'', JStr ''Robin'')] tie_memory))
     = [(''AF-1923'', JStr ''Robin'')] \<and>
   dict_get [(''intent'', JStr ''BOOK''), (''booking_target'', JStr ''LH-5614'')]
       ''booking_target'' (JStr []) = JStr ''LH-5614'' \<and>
   \<not> sublist ''cheapest'' (lower ''LH-5614'') \<and>
   find_flight_by_airline tie_memory (lower ''LH-5614'') = None \<and>
   committed (snd (handle_booking sample_env
       [(''intent'', JStr ''BOOK''), (''booking_target'', JStr ''LH-5614'')] tie_memory))
     = [(''LH-5614'', JStr ''Guest'')]"
proof -
  let ?d1 = "[(''intent'', JStr ''BOOK''), (''booking_target'', JStr ''the CHEAPEST one''),
              (''passenger'', JStr ''Robin'')]"
  let ?d2 = "[(''intent'', JStr ''BOOK''), (''booking_target'', JStr ''LH-5614'')]"
  have s1: "dict_get ?d1 ''booking_target'' (JStr []) = JStr ''the CHEAPEST one''"
    by (simp add: dict_get_def)
  have p1: "dict_get ?d1 ''passenger'' (JStr ''Guest'') = JStr ''Robin''"
    by (simp add: dict_get_def)
  have c1: "sublist ''cheapest'' (lower ''the CHEAPEST one'')" by code_simp
  have f1: "find_cheapest_flight tie_memory = Some (sample_record ''AF-1923'' ''Air France'' 300)"
    by code_simp
  have i1: "flight_id (sample_record ''AF-1923'' ''Air France'' 300) = ''AF-1923''"
    by (simp add: sample_record_def)
  have s2: "dict_get ?d2 ''booking_target'' (JStr []) = JStr ''LH-5614''"
    by (simp add: dict_get_def)
  have p2: "dict_get ?d2 ''passenger'' (JStr ''Guest'') = JStr ''Guest''"
    by (simp add: dict_get_def)
  have c2: "\<not> sublist ''cheapest'' (lower ''LH-5614'')" by code_simp
  have f2: "find_flight_by_airline tie_memory (lower ''LH-5614'') = None" by code_simp
  have g2: "get_flight_by_id tie_memory (upper (lower ''LH-5614''))
              = Some (sample_record ''LH-5614'' ''Lufthansa'' 600)"
    by code_simp
  have i2: "flight_id (sample_record ''LH-5614'' ''Lufthansa'' 600) = ''LH-5614''"
    by (simp add: sample_record_def)
  note t1 = handle_booking_resolution [OF s1, of sample_env tie_memory]
  note t2 = handle_booking_resolution [OF s2, of sample_env tie_memory]
  note h1 = t1 [THEN conjunct1, rule_format, OF c1]
  note o1 = t1 [THEN conjunct2, THEN conjunct2, rule_format, OF h1]
  have r1: "committed (snd (handle_booking sample_env ?d1 tie_memory))
              = [(''AF-1923'', JStr ''Robin'')]"
    using o1 by (simp only: f1 p1 i1 option.case)
  note h2 = t2 [THEN conjunct2, THEN conjunct1, rule_format, OF c2, THEN conjunct2,
      rule_format, OF f2]
  note o2 = t2 [THEN conjunct2, THEN conjunct2, rule_format, OF h2]
  have r2: "committed (snd (handle_booking sample_env ?d2 tie_memory))
              = [(''LH-5614'', JStr ''Guest'')]"
    using o2 by (simp only: g2 p2 i2 option.case)
  show ?thesis using s1 c1 r1 s2 c2 f2 r2 by (intro conjI)
qed

text \<open>
  C5. When the resolution of a BOOK payload (cheapest, fuzzy carrier, identifier) gives
  no record, \<open>_handle_booking\<close> returns the fixed clarification message with an empty
  trace, and so does the turn: \<open>handle_request\<close> returns that message, the memory is
  unchanged, and neither the reservation collaborator nor the generation service is
  called.
\<close>

theorem booking_unresolved_clarification:
  assumes "dict_get data ''booking_target'' (JStr []) = JStr s"
    and "spec_resolution m (lower s) = None"
  shows "handle_booking e data m = (Inr clarification_reply, []) \<and>
         (extract_parameters e user_input = JObj data
            \<and> dict_get data ''intent'' (JStr ''GENERAL'') = JStr ''BOOK'' \<longrightarrow>
          handle_request e user_input m = (Inr clarification_reply, m, [])
            \<and> committed (snd (snd (handle_request e user_input m))) = []
            \<and> generated (snd (snd (handle_request e user_input m))) = [])"
proof -
  have hb: "handle_booking e data m = (Inr clarification_reply, [])"
    using handle_booking_text [OF assms(1), of e m] assms(2)
    by (simp add: booking_outcome_def)
  then show ?thesis using handle_request_book [of e user_input data m] by simp
qed

theorem booking_unresolved_clarification_witness:
  "extract_parameters sample_env ''Book Delta.''
     = JObj [(''intent'', JStr ''BOOK''), (''booking_target'', JStr ''Delta'')] \<and>
   spec_resolution tie_memory (lower ''Delta'') = None \<and>
   handle_request sample_env ''Book Delta.'' tie_memory
     = (Inr clarification_reply, tie_memory, [])"
proof -
  let ?d = "[(''intent'', JStr ''BOOK''), (''booking_target'', JStr ''Delta'')]"
  have x: "extract_parameters sample_env ''Book Delta.'' = JObj ?d" by code_simp
  have i: "dict_get ?d ''intent'' (JStr ''GENERAL'') = JStr ''BOOK''"
    by (simp add: dict_get_def)
  have s: "dict_get ?d ''booking_target'' (JStr []) = JStr ''Delta''"
    by (simp add: dict_get_def)
  have r: "spec_resolution tie_memory (lower ''Delta'') = None" by code_simp
  show ?thesis
    using x i r booking_unresolved_clarification [OF s r, of sample_env "''Book Delta.''"]
    by simp
qed

text \<open>
  C9. When the \<open>booking_target\<close> key is absent and the cache is not empty, the target
  is the empty text, whose normalized form is contained in every normalized carrier name;
  the fuzzy match returns the first cached record, and the turn goes on to the booking of
  that record: the reservation collaborator is called with its identifier, in place of
  the clarification branch.
\<close>

theorem booking_target_absent_books_first:
  assumes "map_of data ''booking_target'' = None"
    and "flight_cache m = r # rest"
  shows "dict_get data ''booking_target'' (JStr []) = JStr [] \<and>
         (\<forall>x. carrier_matches (lower []) x) \<and>
         find_flight_by_airline m (lower []) = Some r \<and>
         handle_booking e data m
           = confirm_booking e r (dict_get data ''passenger'' (JStr ''Guest'')) \<and>
         committed (snd (handle_booking e data m))
           = [(flight_id r, dict_get data ''passenger'' (JStr ''Guest''))] \<and>
         (extract_parameters e user_input = JObj data
            \<and> dict_get data ''intent'' (JStr ''GENERAL'') = JStr ''BOOK'' \<longrightarrow>
          committed (snd (snd (handle_request e user_input m)))
            = [(flight_id r, dict_get data ''passenger'' (JStr ''Guest''))])"
proof -
  have t: "dict_get data ''booking_target'' (JStr []) = JStr []"
    using assms(1) by (simp add: dict_get_def)
  have n: "spec_normalized (lower []) = []" by (simp add: spec_normalized_def lower_def)
  have cm: "\<forall>x. carrier_matches (lower []) x" by (simp add: carrier_matches_def n)
  have f: "find_flight_by_airline m (lower []) = Some r"
    unfolding find_flight_by_airline_find using assms(2) cm by simp
  have res: "spec_resolution m (lower []) = Some r"
    using f by (simp add: spec_resolution_def lower_def)
  have hb: "handle_booking e data m
           = confirm_booking e r (dict_get data ''passenger'' (JStr ''Guest''))"
    using handle_booking_text [OF t, of e m] res by (simp add: booking_outcome_def)
  have c: "committed (snd (handle_booking e data m))
           = [(flight_id r, dict_get data ''passenger'' (JStr ''Guest''))]"
    unfolding hb by (simp add: confirm_booking_def Let_def)
  show ?thesis using t cm f hb c handle_request_book [of e user_input data m] by simp
qed

theorem booking_target_absent_books_first_witness:
  "extract_parameters sample_env ''Book it.'' = JObj [(''intent'', JStr ''BOOK'')] \<and>
   map_of [(''intent'', JStr ''BOOK'')] ''booking_target'' = None \<and>
   flight_cache tie_memory
     = sample_record ''BA-2847'' ''British Airways'' 420 # tl (flight_cache tie_memory) \<and>
   committed (snd (snd (handle_request sample_env ''Book it.'' tie_memory)))
     = [(''BA-2847'', JStr ''Guest'')]"
proof -
  let ?d = "[(''intent'', JStr ''BOOK'')]"
  have x: "extract_parameters sample_env ''Book it.'' = JObj ?d" by code_simp
  have i: "dict_get ?d ''intent'' (JStr ''GENERAL'') = JStr ''BOOK''"
    by (simp add: dict_get_def)
  have a: "map_of ?d ''booking_target'' = None" by simp
  have p: "dict_get ?d ''passenger'' (JStr ''Guest'') = JStr ''Guest''"
    by (simp add: dict_get_def)
  have c: "flight_cache tie_memory
     = sample_record ''BA-2847'' ''British Airways'' 420 # tl (flight_cache tie_memory)"
    by (simp add: tie_memory_def)
  have f: "flight_id (sample_record ''BA-2847'' ''British Airways'' 420) = ''BA-2847''"
    by (simp add: sample_record_def)
  show ?thesis
    using x i a c p f
      booking_target_absent_books_first [OF a c, of sample_env "''Book it.''"]
    by simp
qed

text \<open>
  C10. When the decoded payload is a BOOK payload whose \<open>booking_target\<close> key is present
  with the value null, \<open>_handle_booking\<close> raises \<open>AttributeError\<close> at \<open>.lower()\<close>, and
  \<open>handle_request\<close> returns no reply: the exception reaches its caller, with the memory
  unchanged and no collaborator called.
\<close>

theorem booking_target_null_raises:
  assumes "extract_parameters e user_input = JObj data"
    and "dict_get data ''intent'' (JStr ''GENERAL'') = JStr ''BOOK''"
    and "map_of data ''booking_target'' = Some JNull"
  shows "handle_booking e data m = (Inl AttributeError, []) \<and>
         handle_request e user_input m = (Inl AttributeError, m, [])"
proof -
  have "dict_get data ''booking_target'' (JStr []) = JNull"
    using assms(3) by (simp add: dict_get_def)
  then have hb: "handle_booking e data m = (Inl AttributeError, [])"
    by (simp add: handle_booking_def)
  then show ?thesis using handle_request_book [OF assms(1,2), of m] by simp
qed

theorem booking_target_null_raises_witness:
  "extract_parameters sample_env ''Book a flight.''
     = JObj [(''intent'', JStr ''BOOK''), (''booking_target'', JNull)] \<and>
   handle_request sample_env ''Book a flight.'' tie_memory
     = (Inl AttributeError, tie_memory, [])"
proof -
  let ?d = "[(''intent'', JStr ''BOOK''), (''booking_target'', JNull)]"
  have x: "extract_parameters sample_env ''Book a flight.'' = JObj ?d" by code_simp
  have i: "dict_get ?d ''intent'' (JStr ''GENERAL'') = JStr ''BOOK''"
    by (simp add: dict_get_def)
  have n: "map_of ?d ''booking_target'' = Some JNull" by simp
  show ?thesis using x booking_target_null_raises [OF x i n, of tie_memory] by simp
qed

section \<open>Date resolution\<close>

lemma days_before_month_Suc:
  "1 \<le> m \<Longrightarrow> days_before_month y (Suc m) = days_before_month y m + days_in_month y m"
  by (simp add: days_before_month_def)

lemma upt_1_12: "[Suc 0..<12] = [1, 2, 3, 4, 5, 6, 7, 8, 9, 10, 11]"
  by code_simp

lemma days_before_month_12: "days_before_month y 12 = (if is_leap y then 335 else 334)"
  by (simp add: days_before_month_def upt_1_12 days_in_month_def)

lemma days_before_year_Suc:
  assumes "1 \<le> y"
  shows "days_before_year (Suc y) = days_before_year y + (if is_leap y then 366 else 365)"
proof -
  obtain k where k: "y = Suc k" using assms by (cases y) auto
  define a b c where "a = k div 4" and "b = k div 100" and "c = k div 400"
  have le: "b \<le> a" unfolding a_def b_def by (rule div_le_mono2) simp_all
  have d1: "4 dvd Suc k" if "100 dvd Suc k"
    using that dvd_trans[of 4 100 "Suc k"] by simp
  have d2: "100 dvd Suc k" if "400 dvd Suc k"
    using that dvd_trans[of 100 400 "Suc k"] by simp
  have sa: "Suc k div 4 = (if 4 dvd Suc k then Suc a else a)"
    and sb: "Suc k div 100 = (if 100 dvd Suc k then Suc b else b)"
    and sc: "Suc k div 400 = (if 400 dvd Suc k then Suc c else c)"
    by (auto simp: div_Suc a_def b_def c_def dvd_eq_mod_eq_0)
  have l: "is_leap (Suc k) \<longleftrightarrow> 4 dvd Suc k \<and> (\<not> 100 dvd Suc k \<or> 400 dvd Suc k)"
    by (auto simp: is_leap_def dvd_eq_mod_eq_0)
  have lhs: "days_before_year (Suc (Suc k))
      = Suc k * 365 + (if 4 dvd Suc k then Suc a else a)
        - (if 100 dvd Suc k then Suc b else b) + (if 400 dvd Suc k then Suc c else c)"
    unfolding days_before_year_def by (simp only: diff_Suc_1 sa sb sc)
  have rhs: "days_before_year (Suc k) = k * 365 + a - b + c"
    unfolding days_before_year_def a_def b_def c_def by simp
  show ?thesis
    unfolding k lhs rhs l using le d1 d2 by auto
qed

lemma days_in_month_pos: "1 \<le> days_in_month y m"
  by (simp add: days_in_month_def)

lemma add_one_day_defined:
  assumes "valid_date d" "d \<noteq> date_max"
  shows "\<exists>t. add_one_day d = Inr t"
proof (cases "day d < days_in_month (year d) (month d) \<or> month d < 12 \<or> year d < 9999")
  case True
  then show ?thesis by (auto simp: add_one_day_def)
next
  case False
  then have "month d = 12" "year d = 9999" "day d = days_in_month 9999 12"
    using assms(1) by (auto simp: valid_date_def)
  then have "d = date_max" by (simp add: date_max_def days_in_month_def)
  then show ?thesis using assms(2) by simp
qed

lemma add_one_day_next:
  assumes "valid_date d" "add_one_day d = Inr t"
  shows "valid_date t \<and> toordinal t = toordinal d + 1"
proof -
  consider (same) "day d < days_in_month (year d) (month d)"
    | (month) "day d = days_in_month (year d) (month d)" "month d < 12"
    | (year) "day d = days_in_month (year d) (month d)" "month d = 12" "year d < 9999"
    | (last) "day d = days_in_month (year d) (month d)" "month d = 12" "year d = 9999"
    using assms(1) unfolding valid_date_def by linarith
  then show ?thesis
  proof cases
    case same
    then have "t = d\<lparr>day := day d + 1\<rparr>" using assms(2) by (simp add: add_one_day_def)
    then show ?thesis using assms(1) same by (simp add: valid_date_def toordinal_def)
  next
    case month
    then have t: "t = \<lparr>year = year d, month = month d + 1, day = 1\<rparr>"
      using assms(2) by (simp add: add_one_day_def)
    have m: "1 \<le> month d" using assms(1) by (simp add: valid_date_def)
    show ?thesis
      using assms(1) month m days_in_month_pos[of "year d" "Suc (month d)"]
        days_before_month_Suc[OF m, of "year d"]
      by (simp add: t valid_date_def toordinal_def)
  next
    case year
    then have t: "t = \<lparr>year = year d + 1, month = 1, day = 1\<rparr>"
      using assms(2) by (simp add: add_one_day_def)
    have y: "1 \<le> year d" using assms(1) by (simp add: valid_date_def)
    have d31: "day d = 31" using year by (simp add: days_in_month_def)
    have v: "valid_date t" using year y by (simp add: t valid_date_def days_in_month_def)
    have "toordinal t = days_before_year (Suc (year d)) + 1"
      by (simp add: t toordinal_def days_before_month_def)
    also have "\<dots> = toordinal d + 1"
      using days_before_year_Suc[OF y] year(2) d31
      by (simp add: toordinal_def days_before_month_12)
    finally show ?thesis using v by simp
  next
    case last
    then show ?thesis using assms(2) by (simp add: add_one_day_def)
  qed
qed

lemma digit_val_digit_char: "digit_val (digit_char n) = int (n mod 10)"
  by (simp add: digit_val_def digit_char_def ord_def)

lemma is_digit_digit_char: "is_digit (digit_char n)"
  by (simp add: is_digit_def digit_char_def ord_def)

lemma spec_numeral_2: "spec_numeral [a, b] = 10 * digit_val a + digit_val b"
  using spec_numeral_snoc[of "[a]" b] spec_numeral_snoc[of "[]" a]
  by (simp add: spec_numeral_Nil)

lemma spec_numeral_4:
  "spec_numeral [a, b, c, d] = 1000 * digit_val a + 100 * digit_val b + 10 * digit_val c + digit_val d"
  using spec_numeral_snoc[of "[a, b, c]" d] spec_numeral_snoc[of "[a, b]" c] spec_numeral_2[of a b]
  by simp

lemma two_digits:
  fixes n :: nat
  assumes "n < 100"
  shows "int n = 10 * int (n div 10 mod 10) + int (n mod 10)"
proof -
  define q r where "q = n div 10" and "r = n mod 10"
  have h: "n div 10 mod 10 = q" using assms by (simp add: q_def)
  have "n = 10 * q + r" by (simp add: q_def r_def)
  then have "int n = int (10 * q + r)" by simp
  also have "\<dots> = 10 * int q + int r" by simp
  finally show ?thesis by (simp only: h r_def)
qed

lemma four_digits:
  fixes n :: nat
  assumes "n < 10000"
  shows "int n = 1000 * int (n div 1000 mod 10) + 100 * int (n div 100 mod 10)
           + 10 * int (n div 10 mod 10) + int (n mod 10)"
proof -
  define q1 q2 q3 r0 r1 r2 where "q1 = n div 10" and "q2 = n div 100" and "q3 = n div 1000"
    and "r0 = n mod 10" and "r1 = n div 10 mod 10" and "r2 = n div 100 mod 10"
  have a: "n div 1000 mod 10 = q3" using assms by (simp add: q3_def)
  have q2: "q1 div 10 = q2" by (simp add: q1_def q2_def div_mult2_eq[symmetric])
  have q3: "q2 div 10 = q3" by (simp add: q2_def q3_def div_mult2_eq[symmetric])
  have d: "n = 10 * q1 + r0" by (simp add: q1_def r0_def)
  have c: "q1 = 10 * q2 + r1"
    using mult_div_mod_eq[of 10 q1] by (simp only: q2) (simp add: q1_def r1_def)
  have b: "q2 = 10 * q3 + r2"
    using mult_div_mod_eq[of 10 q2] by (simp only: q3) (simp add: q2_def r2_def)
  have "n = 1000 * q3 + 100 * r2 + 10 * r1 + r0"
    using b c d by simp
  then have "int n = int (1000 * q3 + 100 * r2 + 10 * r1 + r0)" by simp
  also have "\<dots> = 1000 * int q3 + 100 * int r2 + 10 * int r1 + int r0" by simp
  finally show ?thesis by (simp only: a r0_def r1_def r2_def)
qed

lemma show_nat_shape:
  "show_nat n \<noteq> [] \<and> list_all is_digit (show_nat n) \<and> spec_numeral (show_nat n) = int n"
proof (induction n rule: show_nat.induct)
  case (1 n)
  show ?case
  proof (cases "n < 10")
    case True
    then have "show_nat n = [digit_char n]" by (subst show_nat.simps) simp
    moreover have "spec_numeral [digit_char n] = int n"
      using spec_numeral_snoc[of "[]" "digit_char n"] True
      by (simp add: spec_numeral_Nil digit_val_digit_char)
    ultimately show ?thesis by (simp add: is_digit_digit_char)
  next
    case False
    then have s: "show_nat n = show_nat (n div 10) @ [digit_char n]"
      by (subst show_nat.simps) simp
    have ih: "list_all is_digit (show_nat (n div 10))"
      "spec_numeral (show_nat (n div 10)) = int (n div 10)"
      using "1.IH" False by simp_all
    define q r where "q = n div 10" and "r = n mod 10"
    have "n = 10 * q + r" by (simp add: q_def r_def)
    then have "int n = int (10 * q + r)" by simp
    then have n: "int n = 10 * int q + int r" by simp
    have "spec_numeral (show_nat n) = 10 * int q + int r"
      unfolding s spec_numeral_snoc by (simp add: ih digit_val_digit_char q_def r_def)
    then have "spec_numeral (show_nat n) = int n" using n by simp
    then show ?thesis unfolding s using ih(1) by (simp add: is_digit_digit_char)
  qed
qed

lemma strftime_ymd_format:
  assumes "valid_date d"
  shows "is_ymd d (strftime_ymd d)"
proof -
  define Y where "Y = show_nat (year d)"
  define m1 m2 d1 d2 where "m1 = digit_char (month d div 10)" and "m2 = digit_char (month d)"
    and "d1 = digit_char (day d div 10)" and "d2 = digit_char (day d)"
  have m: "month d < 100" and dd: "day d < 100"
    using assms by (auto simp: valid_date_def days_in_month_def split: if_splits)
  have dc: "digit_val (digit_char (n div k)) = int (n div k mod 10)"
    "digit_val (digit_char n) = int (n mod 10)" for n k
    by (simp_all add: digit_val_digit_char)
  have ys: "list_all is_digit Y" "spec_numeral Y = int (year d)" "Suc 0 \<le> length Y"
    using show_nat_shape[of "year d"] by (simp_all add: Y_def Suc_le_eq)
  have ms: "spec_numeral [m1, m2] = int (month d)"
    unfolding spec_numeral_2 m1_def m2_def dc using two_digits[OF m] by simp
  have ds: "spec_numeral [d1, d2] = int (day d)"
    unfolding spec_numeral_2 d1_def d2_def dc using two_digits[OF dd] by simp
  have dg: "is_digit m1" "is_digit m2" "is_digit d1" "is_digit d2"
    by (simp_all add: m1_def m2_def d1_def d2_def is_digit_digit_char)
  have s: "strftime_ymd d = Y @ [CHR ''-'', m1, m2, CHR ''-'', d1, d2]"
    by (simp add: strftime_ymd_def Y_def m1_def m2_def d1_def d2_def)
  have l: "length (strftime_ymd d) = length Y + 6" by (simp add: s)
  have "length (strftime_ymd d) - 6 = length Y" "length (strftime_ymd d) - 5 = length Y + 1"
    "length (strftime_ymd d) - 3 = length Y + 3" "length (strftime_ymd d) - 2 = length Y + 4"
    using l by simp_all
  then show ?thesis
    unfolding is_ymd_def
    by (simp only:) (simp add: s ys ms ds dg nth_append)
qed

lemma resolve_date_text:
  "resolve_date e (JStr r) =
     (if sublist ''tomorrow'' (lower r) then
        (case add_one_day (today e) of
           Inl err \<Rightarrow> Inl err
         | Inr t \<Rightarrow> Inr (strftime_ymd t))
      else Inr (strftime_ymd (today e)))"
proof (cases "r = []")
  case True
  then show ?thesis by (simp add: resolve_date_def truthy_def lower_def)
next
  case False
  then show ?thesis by (simp add: resolve_date_def truthy_def py_in_sublist Let_def)
qed

text \<open>
  C7 (as amended). With \<open>d\<close> the current date: a null (or absent) reference gives
  \<open>d\<close>; a reference that contains "tomorrow" in any letter case gives what the date
  addition of one day gives, which for every \<open>d\<close> before 9999-12-31, the last date of
  \<open>datetime.date\<close>, is the valid date whose day number is one more; a reference that
  contains "today", and any other reference, gives \<open>d\<close>. The date is returned as text
  of the form year-month-day.
\<close>

theorem resolve_date_cases:
  "resolve_date e JNull = Inr (strftime_ymd (today e)) \<and>
   (sublist ''tomorrow'' (lower r) \<longrightarrow>
      resolve_date e (JStr r)
        = (case add_one_day (today e) of
             Inl err \<Rightarrow> Inl err
           | Inr t \<Rightarrow> Inr (strftime_ymd t))) \<and>
   (sublist ''tomorrow'' (lower r) \<and> valid_date (today e) \<and> today e \<noteq> date_max \<longrightarrow>
      (\<exists>t. valid_date t \<and> toordinal t = toordinal (today e) + 1
           \<and> resolve_date e (JStr r) = Inr (strftime_ymd t))) \<and>
   (\<not> sublist ''tomorrow'' (lower r) \<and> sublist ''today'' (lower r) \<longrightarrow>
      resolve_date e (JStr r) = Inr (strftime_ymd (today e))) \<and>
   (\<not> sublist ''tomorrow'' (lower r) \<and> \<not> sublist ''today'' (lower r) \<longrightarrow>
      resolve_date e (JStr r) = Inr (strftime_ymd (today e))) \<and>
   (\<forall>d. valid_date d \<longrightarrow> is_ymd d (strftime_ymd d))"
proof -
  have n: "resolve_date e JNull = Inr (strftime_ymd (today e))"
    by (simp add: resolve_date_def truthy_def)
  have t: "\<exists>t. valid_date t \<and> toordinal t = toordinal (today e) + 1
           \<and> resolve_date e (JStr r) = Inr (strftime_ymd t)"
    if "sublist ''tomorrow'' (lower r)" "valid_date (today e)" "today e \<noteq> date_max"
  proof -
    from add_one_day_defined[OF that(2,3)] obtain t where t: "add_one_day (today e) = Inr t" ..
    from add_one_day_next[OF that(2) t] show ?thesis
      using that(1) t by (auto simp: resolve_date_text)
  qed
  show ?thesis using n t strftime_ymd_format by (simp add: resolve_date_text)
qed

theorem resolve_date_cases_witness:
  "sublist ''tomorrow'' (lower ''Tomorrow morning'') \<and>
   valid_date (today sample_env) \<and> today sample_env \<noteq> date_max \<and>
   (\<exists>t. valid_date t \<and> toordinal t = toordinal (today sample_env) + 1
        \<and> resolve_date sample_env (JStr ''Tomorrow morning'') = Inr (strftime_ymd t)) \<and>
   resolve_date sample_env (JStr ''Tomorrow morning'') = Inr ''2024-01-11'' \<and>
   \<not> sublist ''tomorrow'' (lower ''next Monday'') \<and>
   \<not> sublist ''today'' (lower ''next Monday'') \<and>
   resolve_date sample_env (JStr ''next Monday'') = Inr ''2024-01-10'' \<and>
   resolve_date sample_env JNull = Inr ''2024-01-10'' \<and>
   is_ymd (today sample_env) ''2024-01-10'' \<and>
   is_ymd early_date ''5-03-07''"
proof -
  have a: "sublist ''tomorrow'' (lower ''Tomorrow morning'')" by code_simp
  have v: "valid_date (today sample_env)" by code_simp
  have m: "today sample_env \<noteq> date_max" by (simp add: sample_env_def date_max_def)
  have s: "strftime_ymd (today sample_env) = ''2024-01-10''" by code_simp
  have r: "resolve_date sample_env (JStr ''Tomorrow morning'') = Inr ''2024-01-11''"
    by code_simp
  have b: "\<not> sublist ''tomorrow'' (lower ''next Monday'')"
    "\<not> sublist ''today'' (lower ''next Monday'')" by code_simp+
  note t1 = resolve_date_cases [of sample_env "''Tomorrow morning''"]
  note t2 = resolve_date_cases [of sample_env "''next Monday''"]
  have e: "\<exists>t. valid_date t \<and> toordinal t = toordinal (today sample_env) + 1
        \<and> resolve_date sample_env (JStr ''Tomorrow morning'') = Inr (strftime_ymd t)"
    using t1 a v m by blast
  have n: "resolve_date sample_env (JStr ''next Monday'') = Inr ''2024-01-10''"
    using t2 b s by simp
  have z: "resolve_date sample_env JNull = Inr ''2024-01-10''"
    using t2 s by simp
  have f: "is_ymd (today sample_env) ''2024-01-10''"
    using t2 [THEN conjunct2, THEN conjunct2, THEN conjunct2, THEN conjunct2, THEN conjunct2,
      rule_format, OF v]
    by (simp only: s)
  have w: "valid_date early_date" by code_simp
  have x: "strftime_ymd early_date = ''5-03-07''" by code_simp
  have g: "is_ymd early_date ''5-03-07''"
    using t2 [THEN conjunct2, THEN conjunct2, THEN conjunct2, THEN conjunct2, THEN conjunct2,
      rule_format, OF w]
    by (simp only: x)
  show ?thesis using a v m e r b n z f g by (intro conjI)
qed

text \<open>
  The claim as stated, for every current date, fails on the last date: with the clock at
  9999-12-31 and the reference "tomorrow", the date addition raises \<open>OverflowError\<close> and
  \<open>_resolve_date\<close> returns no date.
\<close>

theorem resolve_date_last_day_counterexample:
  "today last_day_env = date_max \<and> valid_date (today last_day_env) \<and>
   sublist ''tomorrow'' (lower ''tomorrow'') \<and>
   resolve_date last_day_env (JStr ''tomorrow'') = Inl OverflowError"
proof -
  have a: "today last_day_env = date_max" by (simp add: last_day_env_def)
  have v: "valid_date (today last_day_env)" by code_simp
  have s: "sublist ''tomorrow'' (lower ''tomorrow'')" by code_simp
  have r: "resolve_date last_day_env (JStr ''tomorrow'') = Inl OverflowError" by code_simp
  show ?thesis using a v s r by (intro conjI)
qed

section \<open>Interpretation failure\<close>

lemma handle_request_general:
  assumes "extract_parameters e user_input = JObj data"
    and "dict_get data ''intent'' (JStr ''GENERAL'') \<noteq> JStr ''SEARCH''"
    and "dict_get data ''intent'' (JStr ''GENERAL'') \<noteq> JStr ''BOOK''"
  shows "handle_request e user_input m = (Inr capability_reply, m, [])"
  using assms by (simp add: handle_request_def)

text \<open>
  What the \<open>try\<close> block of \<open>_extract_parameters\<close> covers: when the service call raises,
  or the response text does not decode as JSON, the payload has intent GENERAL and the
  turn returns the fixed capability reply, with the memory unchanged and no collaborator
  called. A text that decodes is returned as decoded.
\<close>

lemma interpretation_failure_general:
  "((\<exists>err. nlu_text e user_input = Inl err) \<or>
    (\<exists>text err. nlu_text e user_input = Inr text
       \<and> json_loads e (strip (replace ''```'' [] (replace ''```json'' [] text))) = Inl err)
    \<longrightarrow> extract_parameters e user_input = JObj [(''intent'', JStr ''GENERAL'')]
      \<and> handle_request e user_input m = (Inr capability_reply, m, [])) \<and>
   (\<forall>text v. nlu_text e user_input = Inr text
       \<and> json_loads e (strip (replace ''```'' [] (replace ''```json'' [] text))) = Inr v
    \<longrightarrow> extract_parameters e user_input = v)"
proof -
  have f: "extract_parameters e user_input = JObj [(''intent'', JStr ''GENERAL'')]
      \<and> handle_request e user_input m = (Inr capability_reply, m, [])"
    if "(\<exists>err. nlu_text e user_input = Inl err) \<or>
        (\<exists>text err. nlu_text e user_input = Inr text
           \<and> json_loads e (strip (replace ''```'' [] (replace ''```json'' [] text))) = Inl err)"
  proof -
    have x: "extract_parameters e user_input = JObj [(''intent'', JStr ''GENERAL'')]"
      using that by (auto simp: extract_parameters_def general_payload_def Let_def)
    have "handle_request e user_input m = (Inr capability_reply, m, [])"
      by (rule handle_request_general [OF x]) (simp_all add: dict_get_def)
    then show ?thesis using x by simp
  qed
  have d: "extract_parameters e user_input = v"
    if "nlu_text e user_input = Inr t"
      "json_loads e (strip (replace ''```'' [] (replace ''```json'' [] t))) = Inr v"
    for t v
    using that by (simp add: extract_parameters_def Let_def)
  show ?thesis using f d by blast
qed

lemma interpretation_failure_examples:
  "handle_request sample_env ''Good morning'' tie_memory = (Inr capability_reply, tie_memory, []) \<and>
   extract_parameters sample_env ''Hello'' = JObj [(''intent'', JStr ''GENERAL'')] \<and>
   handle_request sample_env ''Hello'' tie_memory = (Inr capability_reply, tie_memory, [])"
proof -
  have a: "nlu_text sample_env ''Good morning'' = Inl (ServiceError ''unavailable'')"
    by code_simp
  have b: "nlu_text sample_env ''Hello'' = Inr ''Hello! How can I help?''" by code_simp
  have c: "json_loads sample_env
     (strip (replace ''```'' [] (replace ''```json'' [] ''Hello! How can I help?'')))
     = Inl ValueError" by code_simp
  have h1: "(\<exists>err. nlu_text sample_env ''Good morning'' = Inl err) \<or>
           (\<exists>text err. nlu_text sample_env ''Good morning'' = Inr text
              \<and> json_loads sample_env (strip (replace ''```'' [] (replace ''```json'' [] text)))
                  = Inl err)"
    using a by blast
  have h2: "(\<exists>err. nlu_text sample_env ''Hello'' = Inl err) \<or>
           (\<exists>text err. nlu_text sample_env ''Hello'' = Inr text
              \<and> json_loads sample_env (strip (replace ''```'' [] (replace ''```json'' [] text)))
                  = Inl err)"
    using b c by blast
  note t1 = interpretation_failure_general [of sample_env "''Good morning''" tie_memory,
      THEN conjunct1, rule_format, OF h1]
  note t2 = interpretation_failure_general [of sample_env "''Hello''" tie_memory,
      THEN conjunct1, rule_format, OF h2]
  show ?thesis using t1 t2 by (intro conjI) simp_all
qed

text \<open>
  C8. The claim promises, for every outcome of the interpretation step, a payload with
  intent GENERAL and the fixed capability reply. The code gives that when the \<open>try\<close>
  block raises, and gives the reply for a decoded object whose intent is missing or
  unknown, but it misses a response that decodes to a value that is not an object: on
  the response text \<open>[]\<close> the decoded empty array is returned as the payload, whose
  intent is not GENERAL, and \<open>handle_request\<close> raises \<open>AttributeError\<close> at \<open>.get\<close> in
  place of the capability reply.
\<close>

theorem handle_request_non_object_raises:
  "nlu_text sample_env ''List.'' = Inr ''[]'' \<and>
   json_loads sample_env (strip (replace ''```'' [] (replace ''```json'' [] ''[]''))) = Inr (JArr []) \<and>
   extract_parameters sample_env ''List.'' = JArr [] \<and>
   extract_parameters sample_env ''List.'' \<noteq> JObj [(''intent'', JStr ''GENERAL'')] \<and>
   handle_request sample_env ''List.'' tie_memory = (Inl AttributeError, tie_memory, []) \<and>
   handle_request sample_env ''List.'' tie_memory \<noteq> (Inr capability_reply, tie_memory, [])"
proof -
  have a: "nlu_text sample_env ''List.'' = Inr ''[]''" by code_simp
  have b: "json_loads sample_env (strip (replace ''```'' [] (replace ''```json'' [] ''[]'')))
             = Inr (JArr [])" by code_simp
  have x: "extract_parameters sample_env ''List.'' = JArr []"
    using a b by (simp add: extract_parameters_def Let_def)
  have h: "handle_request sample_env ''List.'' tie_memory = (Inl AttributeError, tie_memory, [])"
    using x by (simp add: handle_request_def)
  show ?thesis using a b x h by simp
qed

end
